theory Spec2Isabelle
  imports Complex_Main "HOL-Library.Log_Nat"
begin

section \<open>Numbers and arrays\<close>

text \<open>
  The program computes with NumPy arrays of double-precision floats. A float is the real
  number it stands for. The arithmetic on the entries of the arrays (the dynamics, the
  noise) is idealised as real arithmetic, without rounding. Where the code turns floats
  into integers or raises on a float, the doubles are followed exactly: the rounding of
  every operation of \<^verbatim>\<open>np.linspace\<close> and \<^verbatim>\<open>np.arange\<close>, whose results are
  truncated to indices and lengths, and the overflow of \<^verbatim>\<open>dt**2\<close>. A
  one-dimensional array is a list, a two-dimensional array a list of rows, a
  three-dimensional array a list of two-dimensional arrays.
\<close>

type_synonym vec = "real list"
type_synonym matrix = "real list list"

datatype error = ValueError | IndexError | ZeroDivisionError | OverflowError | SolverError

definition dot :: "vec \<Rightarrow> vec \<Rightarrow> real" where
  "dot v w = sum_list (map2 (*) v w)"

text \<open>\<^verbatim>\<open>M.T\<close> of a two-dimensional array.\<close>

definition transposed :: "matrix \<Rightarrow> matrix" where
  "transposed M = transpose M"

text \<open>The matrix-vector product \<^verbatim>\<open>M @ v\<close> and the sum of two vectors of one length.\<close>

definition mat_vec :: "matrix \<Rightarrow> vec \<Rightarrow> vec" where
  "mat_vec M v = map (\<lambda>row. dot row v) M"

definition vec_add :: "vec \<Rightarrow> vec \<Rightarrow> vec" where
  "vec_add v w = map2 (+) v w"

text \<open>\<^verbatim>\<open>np.eye(n)\<close> and \<^verbatim>\<open>np.zeros((r, c))\<close>, the matrices the degenerate
  dynamics are compared with.\<close>

definition eye :: "nat \<Rightarrow> matrix" where
  "eye n = map (\<lambda>i. map (\<lambda>j. if i = j then 1 else 0) [0..<n]) [0..<n]"

definition zeros :: "nat \<Rightarrow> nat \<Rightarrow> matrix" where
  "zeros r c = replicate r (replicate c 0)"

section \<open>Double precision\<close>

text \<open>
  Rounding to the nearest integer, ties to the even one.
\<close>

definition round_even :: "real \<Rightarrow> int" where
  "round_even r =
     (let f = \<lfloor>r\<rfloor>
      in if r - of_int f < 1 / 2 then f
         else if 1 / 2 < r - of_int f then f + 1
         else if even f then f else f + 1)"

text \<open>
  The binary exponent of a positive number \<open>a\<close>: the \<open>e\<close> with
  \<open>2\<^sup>e \<le> a < 2\<^sup>e\<^sup>+\<^sup>1\<close>, from the bit length of the integer part of \<open>a\<close> or of
  \<open>1 / a\<close>.
\<close>

definition exponent :: "real \<Rightarrow> int" where
  "exponent a = (if 1 \<le> a then bitlen \<lfloor>a\<rfloor> - 1 else - bitlen (\<lceil>1 / a\<rceil> - 1))"

text \<open>
  The double nearest to a real number (IEEE 754 binary64, round to nearest, ties to
  even): 53 significant bits. The range of the exponent is not bounded here, so
  overflow and underflow are not part of the rounding; the one overflow the code raises on
  is a branch of \<open>get_dynamics\<close>.
\<close>

definition double :: "real \<Rightarrow> real" where
  "double x =
     (if x = 0 then 0
      else let e = exponent \<bar>x\<bar>
           in sgn x * of_int (round_even (\<bar>x\<bar> * 2 powi (52 - e))) * 2 powi (e - 52))"

section \<open>Dynamics model\<close>

text \<open>
  \<^verbatim>\<open>get_dynamics(dt)\<close>: state \<open>[x, y, vx, vy]\<close>, input \<open>[ax, ay]\<close>. The function
  has no branch of its own, but the power \<^verbatim>\<open>dt**2\<close> of a Python float raises
  OverflowError when the square is beyond the largest double, which for a double
  \<open>dt\<close> is when \<open>\<bar>dt\<bar> \<ge> 2\<^sup>5\<^sup>1\<^sup>2\<close> (about \<open>1.34e154\<close>).
\<close>

definition get_dynamics :: "real \<Rightarrow> error + matrix \<times> matrix" where
  "get_dynamics dt =
     (if 2 ^ 512 \<le> \<bar>dt\<bar> then Inl OverflowError
      else let A = [[1, 0, dt, 0],
                    [0, 1, 0, dt],
                    [0, 0, 1, 0],
                    [0, 0, 0, 1]];
               B = [[0.5 * dt\<^sup>2, 0.0],
                    [0.0, 0.5 * dt\<^sup>2],
                    [dt, 0.0],
                    [0.0, dt]]
           in Inr (A, B))"

section \<open>Waypoint indices\<close>

text \<open>
  \<^verbatim>\<open>np.linspace(start, stop, num)\<close> with the default end point, operation by
  operation in doubles, as NumPy computes it: the bounds and \<open>div = num - 1\<close> are
  converted to doubles, \<^verbatim>\<open>delta = stop - start\<close>, \<^verbatim>\<open>step = delta / div\<close>,
  \<^verbatim>\<open>y = arange(0, num) * step\<close> (or \<^verbatim>\<open>y / div * delta\<close> when the step is 0),
  \<^verbatim>\<open>y += start\<close>, and the last entry is set to \<open>stop\<close>.
\<close>

definition linspace :: "real \<Rightarrow> real \<Rightarrow> nat \<Rightarrow> real list" where
  "linspace start stop num =
     (if num = 0 then []
      else let a = double start; b = double stop
           in if num = 1 then [a]
              else let dv = double (real (num - 1));
                       delta = double (b - a);
                       step = double (delta / dv)
                   in map (\<lambda>i. double ((if step = 0
                                          then double (double (double (real i) / dv) * delta)
                                          else double (double (real i) * step)) + a))
                          [0..<num - 1]
                      @ [b])"

text \<open>\<^verbatim>\<open>.astype(int)\<close> truncates towards zero.\<close>

definition astype_int :: "real list \<Rightarrow> int list" where
  "astype_int xs = map (\<lambda>r. if 0 \<le> r then \<lfloor>r\<rfloor> else \<lceil>r\<rceil>) xs"

text \<open>
  The first statement of the index computation in \<^verbatim>\<open>optimize\<close>,
  \<^verbatim>\<open>np.linspace(0, len(t) - 1, len(points) + 1).astype(int)[:-1]\<close>, for a grid of
  \<open>T\<close> time steps and \<open>P\<close> waypoints.
\<close>

definition linspace_idx :: "nat \<Rightarrow> nat \<Rightarrow> int list" where
  "linspace_idx T P = butlast (astype_int (linspace 0 (real_of_int (int T - 1)) (P + 1)))"

text \<open>
  Both statements: the second, \<^verbatim>\<open>point_idx[0] = 0\<close>, raises IndexError on an
  empty index array.
\<close>

definition point_idx :: "nat \<Rightarrow> nat \<Rightarrow> error + int list" where
  "point_idx T P =
     (let idx = linspace_idx T P
      in if idx = [] then Inl IndexError else Inr (idx[0 := 0]))"

text \<open>
  The entry \<open>i\<close> of \<open>linspace 0 (T - 1) (P + 1)\<close>, for \<open>i < P\<close>, before it is
  converted to an integer.
\<close>

definition entry :: "nat \<Rightarrow> nat \<Rightarrow> nat \<Rightarrow> real" where
  "entry T P i =
     (let a = double 0; b = double (real_of_int (int T - 1));
          dv = double (real P); delta = double (b - a); step = double (delta / dv)
      in double ((if step = 0 then double (double (double (real i) / dv) * delta)
                  else double (double (real i) * step)) + a))"

text \<open>A list of integers is evenly spaced when all consecutive differences agree.\<close>

fun evenly_spaced :: "int list \<Rightarrow> bool" where
  "evenly_spaced (a # b # c # r) = (b - a = c - b \<and> evenly_spaced (b # c # r))"
| "evenly_spaced _ = True"

section \<open>Array operations\<close>

text \<open>
  A two-dimensional array of \<open>r\<close> rows and \<open>c\<close> columns. An array without rows is
  the empty list whatever its number of columns.
\<close>

definition dims :: "matrix \<Rightarrow> nat \<Rightarrow> nat \<Rightarrow> bool" where
  "dims M r c = (length M = r \<and> list_all (\<lambda>row. length row = c) M)"

text \<open>\<^verbatim>\<open>x.shape\<close> of a two-dimensional array.\<close>

definition shape :: "matrix \<Rightarrow> nat \<times> nat" where
  "shape M = (length M, case M of [] \<Rightarrow> 0 | row # _ \<Rightarrow> length row)"

text \<open>The product and the sum of matrices of fitting shapes.\<close>

definition mat_mul :: "matrix \<Rightarrow> matrix \<Rightarrow> matrix" where
  "mat_mul X Y = map (\<lambda>row. map (\<lambda>col. dot row col) (transpose Y)) X"

definition mat_add :: "matrix \<Rightarrow> matrix \<Rightarrow> matrix" where
  "mat_add X Y = map2 vec_add X Y"

text \<open>
  \<^verbatim>\<open>X @ Y\<close> for two-dimensional arrays: NumPy raises ValueError when the columns of
  \<open>X\<close> are not as many as the rows of \<open>Y\<close>.
\<close>

definition matmul :: "matrix \<Rightarrow> matrix \<Rightarrow> error + matrix" where
  "matmul X Y =
     (if list_all (\<lambda>row. length row = length Y) X then Inr (mat_mul X Y) else Inl ValueError)"

text \<open>
  \<^verbatim>\<open>X + Y\<close> for two-dimensional arrays, with NumPy's broadcasting: along each axis
  the lengths agree or one of them is 1; otherwise ValueError.
\<close>

definition add_row :: "vec \<Rightarrow> vec \<Rightarrow> error + vec" where
  "add_row v w =
     (if length v = length w then Inr (vec_add v w)
      else if length v = 1 then Inr (map (\<lambda>b. hd v + b) w)
      else if length w = 1 then Inr (map (\<lambda>a. a + hd w) v)
      else Inl ValueError)"

fun collect :: "(error + 'a) list \<Rightarrow> error + 'a list" where
  "collect [] = Inr []"
| "collect (Inl e # rs) = Inl e"
| "collect (Inr a # rs) = (case collect rs of Inl e \<Rightarrow> Inl e | Inr as \<Rightarrow> Inr (a # as))"

definition np_add :: "matrix \<Rightarrow> matrix \<Rightarrow> error + matrix" where
  "np_add X Y =
     (if length X = length Y then collect (map2 add_row X Y)
      else if length X = 1 then collect (map (\<lambda>w. add_row (hd X) w) Y)
      else if length Y = 1 then collect (map (\<lambda>v. add_row v (hd Y)) X)
      else Inl ValueError)"

section \<open>Configuration\<close>

text \<open>
  Modelled from the spec: the class \<open>Config\<close> of \<^verbatim>\<open>ese200/config.py\<close> is not among
  the sources. The spec lists its fields: a fixed set of scalar parameters, read-only for
  the whole run.
\<close>

record Config =
  time_step :: real
  trajectory_noise :: real
  state_noise :: real
  trajectory_radius :: real
  trajectory_margin :: real
  duration :: real
  n_trajectories :: int

section \<open>Random source\<close>

text \<open>
  A NumPy \<open>Generator\<close>: the standard normal variates it is going to produce, in order,
  and its position in that stream. \<^verbatim>\<open>rng.normal(scale=s, size=(r, c))\<close> raises
  ValueError for a negative scale, before drawing; otherwise it takes the next \<open>r c\<close>
  variates and scales them.
\<close>

record Generator =
  samples :: "nat \<Rightarrow> real"
  pos :: nat

definition normal :: "Generator \<Rightarrow> real \<Rightarrow> nat \<times> nat \<Rightarrow> (error + matrix) \<times> Generator" where
  "normal g scale sz =
     (case sz of (r, c) \<Rightarrow>
        if scale < 0 then (Inl ValueError, g)
        else (Inr (map (\<lambda>i. map (\<lambda>j. scale * samples g (pos g + i * c + j)) [0..<c]) [0..<r]),
              g\<lparr>pos := pos g + r * c\<rparr>))"

section \<open>Simulator\<close>

text \<open>
  Python objects are shared by reference, so the objects a \<open>Simulator\<close> touches live in
  a store: configurations, arrays, generators and simulators, each addressed by its index.
  Allocation appends. A \<open>Simulator\<close> holds references to its configuration, to its
  two dynamics matrices and to its generator.
\<close>

type_synonym ref = nat

record Simulator =
  config :: ref
  A :: ref
  B :: ref
  rng :: ref

record heap =
  configs :: "Config list"
  arrays :: "matrix list"
  generators :: "Generator list"
  simulators :: "Simulator list"

text \<open>
  \<^verbatim>\<open>Simulator.__init__(self, config)\<close>. An exception of \<open>get_dynamics\<close> ends the
  construction. \<^verbatim>\<open>np.random.default_rng()\<close> makes a new generator seeded from the
  operating system; its stream is the parameter \<open>entropy\<close>.
\<close>

definition Simulator_init :: "heap \<Rightarrow> ref \<Rightarrow> (nat \<Rightarrow> real) \<Rightarrow> error + ref \<times> heap" where
  "Simulator_init h cfg entropy =
     (case get_dynamics (time_step (configs h ! cfg)) of
        Inl e \<Rightarrow> Inl e
      | Inr (a, b) \<Rightarrow>
          let self = \<lparr>config = cfg, A = length (arrays h), B = length (arrays h) + 1,
                       rng = length (generators h)\<rparr>
          in Inr (length (simulators h),
                  h\<lparr>arrays := arrays h @ [a, b],
                    generators := generators h @ [\<lparr>samples = entropy, pos = 0\<rparr>],
                    simulators := simulators h @ [self]\<rparr>))"

text \<open>
  \<^verbatim>\<open>Simulator.step(self, x, u)\<close>: the noise is drawn first, then
  \<^verbatim>\<open>x @ self.A.T + u @ self.B.T + noise\<close> is evaluated from left to right. Every
  operator allocates its result; only the returned array stays in the store.
\<close>

definition step :: "heap \<Rightarrow> ref \<Rightarrow> ref \<Rightarrow> ref \<Rightarrow> (error + ref) \<times> heap" where
  "step h self x u =
     (let sim = simulators h ! self;
          cfg = configs h ! config sim;
          (noise, g) = normal (generators h ! rng sim)
                         (trajectory_noise cfg * time_step cfg) (shape (arrays h ! x));
          h1 = h\<lparr>generators := (generators h)[rng sim := g]\<rparr>
      in case noise of
           Inl e \<Rightarrow> (Inl e, h1)
         | Inr nz \<Rightarrow>
             (case matmul (arrays h ! x) (transposed (arrays h ! A sim)) of
                Inl e \<Rightarrow> (Inl e, h1)
              | Inr xa \<Rightarrow>
                  (case matmul (arrays h ! u) (transposed (arrays h ! B sim)) of
                     Inl e \<Rightarrow> (Inl e, h1)
                   | Inr ub \<Rightarrow>
                       (case np_add xa ub of
                          Inl e \<Rightarrow> (Inl e, h1)
                        | Inr s \<Rightarrow>
                            (case np_add s nz of
                               Inl e \<Rightarrow> (Inl e, h1)
                             | Inr r \<Rightarrow> (Inr (length (arrays h1)),
                                         h1\<lparr>arrays := arrays h1 @ [r]\<rparr>))))))"

text \<open>
  The stores that \<open>Simulator_init\<close> builds: every reference of a simulator points into
  the store, its matrices are 4 by 4 and 4 by 2, and no two simulators share a generator.
\<close>

definition wf_heap :: "heap \<Rightarrow> bool" where
  "wf_heap h =
     (list_all (\<lambda>s. config s < length (configs h) \<and> A s < length (arrays h)
                  \<and> B s < length (arrays h) \<and> rng s < length (generators h)
                  \<and> dims (arrays h ! A s) 4 4 \<and> dims (arrays h ! B s) 4 2) (simulators h)
      \<and> distinct (map rng (simulators h)))"

section \<open>Example stores\<close>

text \<open>
  A store with one configuration and a batch of one state and one input; the store the
  constructor makes of it in two calls, with two simulators; and the same for a
  configuration with a negative time step and one simulator.
\<close>

definition example_config :: Config where
  "example_config = \<lparr>time_step = 1, trajectory_noise = 2, state_noise = 0,
     trajectory_radius = 1, trajectory_margin = 0, duration = 2, n_trajectories = 1\<rparr>"

definition initial_heap :: "Config \<Rightarrow> heap" where
  "initial_heap cfg =
     \<lparr>configs = [cfg], arrays = [[[1, 2, 3, 4]], [[5, 6]]], generators = [], simulators = []\<rparr>"

definition example_heap :: heap where
  "example_heap =
    \<lparr>configs = [example_config],
      arrays = [[[1, 2, 3, 4]], [[5, 6]],
        [[1, 0, 1, 0], [0, 1, 0, 1], [0, 0, 1, 0], [0, 0, 0, 1]],
        [[1 / 2, 0], [0, 1 / 2], [1, 0], [0, 1]],
        [[1, 0, 1, 0], [0, 1, 0, 1], [0, 0, 1, 0], [0, 0, 0, 1]],
        [[1 / 2, 0], [0, 1 / 2], [1, 0], [0, 1]]],
      generators = [\<lparr>samples = \<lambda>i. real i, pos = 0\<rparr>, \<lparr>samples = \<lambda>i. 1, pos = 0\<rparr>],
      simulators = [\<lparr>config = 0, A = 2, B = 3, rng = 0\<rparr>, \<lparr>config = 0, A = 4, B = 5, rng = 1\<rparr>]\<rparr>"

definition reversed_config :: Config where
  "reversed_config = \<lparr>time_step = - 1, trajectory_noise = 1, state_noise = 0,
     trajectory_radius = 1, trajectory_margin = 0, duration = 2, n_trajectories = 1\<rparr>"

definition reversed_heap :: heap where
  "reversed_heap =
    \<lparr>configs = [reversed_config],
      arrays = [[[1, 2, 3, 4]], [[5, 6]],
        [[1, 0, - 1, 0], [0, 1, 0, - 1], [0, 0, 1, 0], [0, 0, 0, 1]],
        [[1 / 2, 0], [0, 1 / 2], [- 1, 0], [0, - 1]]],
      generators = [\<lparr>samples = \<lambda>i. real i, pos = 0\<rparr>],
      simulators = [\<lparr>config = 0, A = 2, B = 3, rng = 0\<rparr>]\<rparr>"

section \<open>Trajectory fitter\<close>

text \<open>
  The convex solver is an external library, taken as a parameter. It receives the problem
  \<^verbatim>\<open>optimize\<close> builds and answers with a status and, when it has a solution,
  values for the two variables; on the statuses without a solution the variables keep the
  value \<^verbatim>\<open>None\<close>; a solver that breaks down raises an exception.
\<close>

datatype status = OPTIMAL | OPTIMAL_INACCURATE | USER_LIMIT
  | INFEASIBLE | INFEASIBLE_INACCURATE | UNBOUNDED | UNBOUNDED_INACCURATE
  | INFEASIBLE_OR_UNBOUNDED

text \<open>Python indexing: a negative index counts from the end.\<close>

definition py_index :: "'a list \<Rightarrow> int \<Rightarrow> 'a" where
  "py_index xs i = xs ! nat (if i < 0 then int (length xs) + i else i)"

text \<open>
  The constraints \<^verbatim>\<open>optimize\<close> writes, as data: the dynamics
  \<^verbatim>\<open>x[1:] == x[:-1] @ A.T + u[:-1] @ B.T\<close>, the waypoints
  \<^verbatim>\<open>x[point_idx, :2] == points\<close>, and the equality of two rows of \<open>x\<close>,
  \<^verbatim>\<open>x[i] == x[j]\<close>.
\<close>

datatype constraint =
    Dynamics matrix matrix
  | PassThrough "int list" matrix
  | SameRow int int

text \<open>
  The problem handed to the solver: variables \<open>x\<close> (\<open>n_steps\<close> by 4) and \<open>u\<close>
  (\<open>n_steps\<close> by 2), the objective \<^verbatim>\<open>cp.sum_squares(u)\<close> and the list of
  constraints. The objective plays no part in what follows.
\<close>

record problem =
  n_steps :: nat
  constraints :: "constraint list"

text \<open>
  A numerical solver meets a constraint to a tolerance: every entry of its two sides
  differs by at most \<open>eps\<close>, and the two sides have one shape. With \<open>eps = 0\<close> the
  constraint holds exactly.
\<close>

definition close_to :: "real \<Rightarrow> vec \<Rightarrow> vec \<Rightarrow> bool" where
  "close_to eps v w = list_all2 (\<lambda>a b. \<bar>a - b\<bar> \<le> eps) v w"

fun holds :: "real \<Rightarrow> matrix \<Rightarrow> matrix \<Rightarrow> constraint \<Rightarrow> bool" where
  "holds eps x u (Dynamics Am Bm) =
     list_all2 (close_to eps) (tl x)
       (mat_add (mat_mul (butlast x) (transposed Am)) (mat_mul (butlast u) (transposed Bm)))"
| "holds eps x u (PassThrough idx pts) =
     list_all2 (close_to eps) (map (\<lambda>i. take 2 (py_index x i)) idx) pts"
| "holds eps x u (SameRow i j) = close_to eps (py_index x i) (py_index x j)"

text \<open>
  Values of the variables that have the shapes of the variables and meet every constraint
  of the problem within \<open>eps\<close>; and those that meet them exactly.
\<close>

definition feasible_within :: "real \<Rightarrow> problem \<Rightarrow> matrix \<Rightarrow> matrix \<Rightarrow> bool" where
  "feasible_within eps p x u =
     (dims x (n_steps p) 4 \<and> dims u (n_steps p) 2 \<and> list_all (holds eps x u) (constraints p))"

definition feasible :: "problem \<Rightarrow> matrix \<Rightarrow> matrix \<Rightarrow> bool" where
  "feasible p x u = feasible_within 0 p x u"

datatype solver_result = Solution status matrix matrix | NoSolution status | SolverFailure

type_synonym solver = "problem \<Rightarrow> solver_result"

text \<open>
  The part of \<^verbatim>\<open>optimize\<close> before the call of the solver. \<^verbatim>\<open>cp.Variable\<close>
  rejects a dimension 0 with ValueError; the index assignment raises IndexError without
  waypoints; the constraints raise ValueError on operands whose shapes do not fit (A is
  4 by 4, B is 4 by 2, the waypoints are P by 2; broadcasting of other shapes is left out).
\<close>

definition build_problem ::
  "matrix \<Rightarrow> matrix \<Rightarrow> real list \<Rightarrow> matrix \<Rightarrow> error + problem" where
  "build_problem Am Bm t points =
     (if length t = 0 then Inl ValueError
      else case point_idx (length t) (length points) of
        Inl e \<Rightarrow> Inl e
      | Inr idx \<Rightarrow>
          if dims Am 4 4 \<and> dims Bm 4 2 \<and> dims points (length points) 2
          then Inr \<lparr>n_steps = length t,
                     constraints = [Dynamics Am Bm, PassThrough idx points, SameRow (- 1) 0]\<rparr>
          else Inl ValueError)"

text \<open>
  \<^verbatim>\<open>optimize(A, B, t, points)\<close> returns \<^verbatim>\<open>x.value, u.value\<close>; the status of the
  solver is not returned.
\<close>

definition optimize ::
  "solver \<Rightarrow> matrix \<Rightarrow> matrix \<Rightarrow> real list \<Rightarrow> matrix
     \<Rightarrow> error + (matrix option \<times> matrix option)" where
  "optimize solve Am Bm t points =
     (case build_problem Am Bm t points of
        Inl e \<Rightarrow> Inl e
      | Inr prob \<Rightarrow>
          (case solve prob of
             Solution st x u \<Rightarrow> Inr (Some x, Some u)
           | NoSolution st \<Rightarrow> Inr (None, None)
           | SolverFailure \<Rightarrow> Inl SolverError))"

text \<open>
  Example solvers and problems: the dynamics matrices of the time step 1; a solver that
  answers with the trajectory resting at the origin (the optimum when all waypoints are
  the origin), one that answers a one-waypoint problem with a solution that
  closes the loop to \<open>10\<^sup>-\<^sup>9\<close> only, and one that reports infeasibility; a problem with
  one waypoint and one whose two waypoints differ and share the index 0.
\<close>

definition example_A :: matrix where
  "example_A = [[1, 0, 1, 0], [0, 1, 0, 1], [0, 0, 1, 0], [0, 0, 0, 1]]"

definition example_B :: matrix where
  "example_B = [[1 / 2, 0], [0, 1 / 2], [1, 0], [0, 1]]"

definition resting_solver :: solver where
  "resting_solver p = Solution OPTIMAL (zeros (n_steps p) 4) (zeros (n_steps p) 2)"

definition inexact_solver :: solver where
  "inexact_solver p =
     Solution OPTIMAL [[3, 4, 0, 0], [3 + 1 / 10 ^ 9, 4, 0, 0]] [[0, 0], [0, 0]]"

definition refusing_solver :: solver where
  "refusing_solver p = NoSolution INFEASIBLE"

definition example_problem :: problem where
  "example_problem =
     \<lparr>n_steps = 2,
       constraints = [Dynamics example_A example_B, PassThrough [0] [[3, 4]], SameRow (- 1) 0]\<rparr>"

definition clash_problem :: problem where
  "clash_problem =
     \<lparr>n_steps = 2,
       constraints = [Dynamics example_A example_B, PassThrough [0, 0] [[0, 0], [1, 0]],
                      SameRow (- 1) 0]\<rparr>"

section \<open>Trajectory batch generator\<close>

text \<open>
  The arrays \<^verbatim>\<open>x\<close> and \<^verbatim>\<open>u\<close> of the generator are three-dimensional. Their
  entries are numbers or NaN: assigning \<^verbatim>\<open>None\<close> to a slice of a float array stores
  NaN, which is what happens to a trajectory the solver left without values.
\<close>

datatype entry = Num real | NaN

type_synonym array3 = "entry list list list"

definition dims3 :: "'a list list list \<Rightarrow> nat \<Rightarrow> nat \<Rightarrow> nat \<Rightarrow> bool" where
  "dims3 a n r c =
     (length a = n \<and> list_all (\<lambda>m. length m = r \<and> list_all (\<lambda>row. length row = c) m) a)"

text \<open>
  \<^verbatim>\<open>np.arange(start, stop, step)\<close>: the number of entries is
  \<open>\<lceil>(stop - start) / step\<rceil>\<close>, difference and quotient computed in doubles; none
  when that is not positive; a zero step is a division by zero. Only the length of the
  grid is used; its entries are left unrounded.
\<close>

definition arange :: "real \<Rightarrow> real \<Rightarrow> real \<Rightarrow> error + real list" where
  "arange start stop stride =
     (if stride = 0 then Inl ZeroDivisionError
      else Inr (map (\<lambda>i. start + real i * stride)
                  [0..<nat \<lceil>double (double (stop - start) / stride)\<rceil>]))"

text \<open>\<^verbatim>\<open>rng.normal(scale=s, size=(n, r, c))\<close>, filled in row-major order.\<close>

definition normal3 ::
  "Generator \<Rightarrow> real \<Rightarrow> nat \<times> nat \<times> nat \<Rightarrow> (error + matrix list) \<times> Generator" where
  "normal3 g scale sz =
     (case sz of (n, r, c) \<Rightarrow>
        if scale < 0 then (Inl ValueError, g)
        else (Inr (map (\<lambda>k. map (\<lambda>i. map (\<lambda>j. scale * samples g (pos g + (k * r + i) * c + j))
                                   [0..<c]) [0..<r]) [0..<n]),
              g\<lparr>pos := pos g + n * r * c\<rparr>))"

text \<open>
  The nine waypoints of the loop; scaled by the radius and perturbed for each trajectory:
  \<^verbatim>\<open>points[None, ...] + rng.normal(scale=config.trajectory_noise, size=(n,) + points.shape)\<close>.
\<close>

definition template :: matrix where
  "template = [[- 1, 0], [- 1, 2], [0, 3], [1, 2], [1, 1], [2, 1], [3, 0], [2, - 1], [0, - 1]]"

definition perturbed_points ::
  "Config \<Rightarrow> Generator \<Rightarrow> (error + matrix list) \<times> Generator" where
  "perturbed_points cfg g =
     (let points = map (map (\<lambda>a. a * trajectory_radius cfg)) template
      in case normal3 g (trajectory_noise cfg) (nat (n_trajectories cfg), 9, 2) of
           (Inl e, g') \<Rightarrow> (Inl e, g')
         | (Inr nz, g') \<Rightarrow> (Inr (map (\<lambda>m. mat_add points m) nz), g'))"

text \<open>
  \<^verbatim>\<open>a[i] = v\<close> for a slice of \<open>r\<close> by \<open>c\<close> entries and a value that is
  \<^verbatim>\<open>None\<close> or an array of that shape (the shape of the solver's variable); NumPy
  raises ValueError for a shape it cannot broadcast (broadcasting is left out).
\<close>

definition setitem :: "array3 \<Rightarrow> nat \<Rightarrow> matrix option \<Rightarrow> nat \<Rightarrow> nat \<Rightarrow> error + array3" where
  "setitem a i v r c =
     (case v of
        None \<Rightarrow> Inr (a[i := replicate r (replicate c NaN)])
      | Some m \<Rightarrow> if dims m r c then Inr (a[i := map (map Num) m]) else Inl ValueError)"

text \<open>
  The loop \<^verbatim>\<open>for i in range(n): x[i], u[i] = optimize(A, B, t, points[i])\<close>, over the
  list of the indices still to do.
\<close>

fun fit_all ::
  "solver \<Rightarrow> matrix \<Rightarrow> matrix \<Rightarrow> real list \<Rightarrow> matrix list \<Rightarrow> nat list \<Rightarrow> array3 \<times> array3
     \<Rightarrow> error + array3 \<times> array3" where
  "fit_all solve Am Bm t points [] xu = Inr xu"
| "fit_all solve Am Bm t points (i # rest) xu =
     (case optimize solve Am Bm t (points ! i) of
        Inl e \<Rightarrow> Inl e
      | Inr (xv, uv) \<Rightarrow>
          (case setitem (fst xu) i xv (length t) 4 of
             Inl e \<Rightarrow> Inl e
           | Inr x' \<Rightarrow>
               (case setitem (snd xu) i uv (length t) 2 of
                  Inl e \<Rightarrow> Inl e
                | Inr u' \<Rightarrow> fit_all solve Am Bm t points rest (x', u'))))"

text \<open>\<^verbatim>\<open>x + noise\<close> on arrays of one shape.\<close>

fun add_entry :: "entry \<Rightarrow> real \<Rightarrow> entry" where
  "add_entry (Num a) b = Num (a + b)"
| "add_entry NaN b = NaN"

definition add_noise :: "array3 \<Rightarrow> matrix list \<Rightarrow> array3" where
  "add_noise x noise = map2 (map2 (map2 add_entry)) x noise"

text \<open>
  \<^verbatim>\<open>generate_expert_trajectories()\<close>. Its configuration \<^verbatim>\<open>Config()\<close>, the solver
  and the stream of the generator it creates are parameters.
\<close>

definition generate_expert_trajectories ::
  "Config \<Rightarrow> solver \<Rightarrow> (nat \<Rightarrow> real) \<Rightarrow> error + array3 \<times> array3 \<times> matrix list" where
  "generate_expert_trajectories cfg solve entropy =
     (let rng = \<lparr>samples = entropy, pos = 0\<rparr>
      in case get_dynamics (time_step cfg) of
           Inl e \<Rightarrow> Inl e
         | Inr (Am, Bm) \<Rightarrow>
            (case arange 0 (duration cfg) (time_step cfg) of
               Inl e \<Rightarrow> Inl e
             | Inr t \<Rightarrow>
                 if n_trajectories cfg < 0 then Inl ValueError
                 else
                   let n = nat (n_trajectories cfg);
                       x = replicate n (replicate (length t) (replicate 4 (Num 0)));
                       u = replicate n (replicate (length t) (replicate 2 (Num 0)))
                   in case perturbed_points cfg rng of
                        (Inl e, rng1) \<Rightarrow> Inl e
                      | (Inr points, rng1) \<Rightarrow>
                          (case fit_all solve Am Bm t points [0..<n] (x, u) of
                             Inl e \<Rightarrow> Inl e
                           | Inr (x', u') \<Rightarrow>
                               (case normal3 rng1 (state_noise cfg * time_step cfg)
                                       (n, length t, 4) of
                                  (Inl e, rng2) \<Rightarrow> Inl e
                                | (Inr noise, rng2) \<Rightarrow>
                                    Inr (add_noise x' noise, u', points)))))"

text \<open>
  A configuration without noise and with radius 0, where every waypoint is the origin;
  and the same with a negative scale of the measurement noise.
\<close>

definition still_config :: Config where
  "still_config = \<lparr>time_step = 1, trajectory_noise = 0, state_noise = 0,
     trajectory_radius = 0, trajectory_margin = 0, duration = 2, n_trajectories = 1\<rparr>"

definition negative_noise_config :: Config where
  "negative_noise_config = \<lparr>time_step = 1, trajectory_noise = 0, state_noise = - 1,
     trajectory_radius = 0, trajectory_margin = 0, duration = 2, n_trajectories = 1\<rparr>"


section \<open>Properties of the rounding\<close>

lemma round_even_close: "\<bar>of_int (round_even r) - r\<bar> \<le> 1 / 2"
  unfolding round_even_def Let_def by (auto simp: abs_le_iff)

lemma round_even_of_int [simp]: "round_even (of_int k) = k"
  by (simp add: round_even_def)

lemma exponent_le:
  assumes "0 < a"
  shows "2 powi exponent a \<le> a"
proof (cases "1 \<le> a")
  case True
  then have p: "0 < \<lfloor>a\<rfloor>" by linarith
  have "(2::int) ^ nat (bitlen \<lfloor>a\<rfloor> - 1) \<le> \<lfloor>a\<rfloor>"
    using bitlen_bounds [OF p] by simp
  then have "(2::real) ^ nat (bitlen \<lfloor>a\<rfloor> - 1) \<le> of_int \<lfloor>a\<rfloor>"
    by (metis of_int_le_iff of_int_numeral of_int_power)
  also have "\<dots> \<le> a" by simp
  finally have "(2::real) ^ nat (bitlen \<lfloor>a\<rfloor> - 1) \<le> a" .
  moreover have "0 \<le> bitlen \<lfloor>a\<rfloor> - 1"
    using bitlen_bounds [OF p] p by (smt (verit) bitlen_nonneg bitlen_eq_zero_iff)
  ultimately show ?thesis
    using True by (simp add: exponent_def power_int_def)
next
  case False
  let ?k = "bitlen (\<lceil>1 / a\<rceil> - 1)"
  have r: "1 < 1 / a" using False assms by simp
  then have p: "0 < \<lceil>1 / a\<rceil> - 1" by linarith
  have "\<lceil>1 / a\<rceil> - 1 < 2 ^ nat ?k" using bitlen_bounds [OF p] by simp
  then have "\<lceil>1 / a\<rceil> \<le> 2 ^ nat ?k" by simp
  then have "of_int \<lceil>1 / a\<rceil> \<le> (2::real) ^ nat ?k"
    by (metis of_int_le_iff of_int_numeral of_int_power)
  then have "1 / a \<le> 2 ^ nat ?k" by linarith
  then have "1 / 2 ^ nat ?k \<le> a"
    using assms by (simp add: field_simps)
  moreover have "0 \<le> ?k" by (rule bitlen_nonneg)
  then have "(2::real) powi (- ?k) = 1 / 2 ^ nat ?k"
    by (simp add: power_int_minus power_int_def field_simps)
  ultimately show ?thesis
    using False by (simp add: exponent_def)
qed

lemma double_zero [simp]: "double 0 = 0"
  by (simp add: double_def)

lemma double_error:
  assumes "0 < x"
  shows "\<bar>double x - x\<bar> \<le> x / 2 ^ 53"
proof -
  let ?e = "exponent x"
  let ?s = "x * 2 powi (52 - ?e)"
  have d: "double x = of_int (round_even ?s) * 2 powi (?e - 52)"
    using assms by (simp add: double_def Let_def)
  have x: "x = ?s * 2 powi (?e - 52)"
    by (simp add: power_int_add [symmetric])
  have "double x - x = (of_int (round_even ?s) - ?s) * 2 powi (?e - 52)"
    unfolding d by (subst (2) x) (simp add: algebra_simps)
  then have "\<bar>double x - x\<bar> = \<bar>of_int (round_even ?s) - ?s\<bar> * 2 powi (?e - 52)"
    by (simp add: abs_mult)
  also have "\<dots> \<le> 1 / 2 * 2 powi (?e - 52)"
    by (intro mult_right_mono round_even_close) simp
  also have "\<dots> = 2 powi ?e / 2 ^ 53"
    by (simp add: power_int_diff)
  also have "\<dots> \<le> x / 2 ^ 53"
    using exponent_le [OF assms] by (simp add: divide_right_mono)
  finally show ?thesis .
qed



lemmas double_eval = double_def exponent_def round_even_def Let_def compute_bitlen

lemma double_bounds:
  assumes "0 \<le> x"
  shows "0 \<le> double x" and "double x \<le> x * (1 + 1 / 2 ^ 53)"
    and "x * (1 - 1 / 2 ^ 53) \<le> double x"
proof -
  have "0 \<le> double x \<and> double x \<le> x * (1 + 1 / 2 ^ 53) \<and> x * (1 - 1 / 2 ^ 53) \<le> double x"
  proof (cases "x = 0")
    case True
    then show ?thesis by simp
  next
    case False
    then have "0 < x" using assms by simp
    from double_error [OF this] have "\<bar>double x - x\<bar> \<le> x / 2 ^ 53" .
    then have "double x \<le> x + x / 2 ^ 53" "x - x / 2 ^ 53 \<le> double x" by linarith+
    moreover have "0 \<le> x - x / 2 ^ 53" using assms by (simp add: field_simps)
    ultimately show ?thesis by (simp add: algebra_simps)
  qed
  then show "0 \<le> double x" and "double x \<le> x * (1 + 1 / 2 ^ 53)"
    and "x * (1 - 1 / 2 ^ 53) \<le> double x" by simp_all
qed

lemma double_pos: "0 < x \<Longrightarrow> 0 < double x"
proof -
  assume x: "0 < x"
  then have "0 < x * (1 - 1 / 2 ^ 53)" by simp
  also have "\<dots> \<le> double x" using x by (intro double_bounds(3)) simp
  finally show ?thesis .
qed


section \<open>Properties of the dynamics model\<close>

lemma get_dynamics_in_range:
  assumes "\<bar>dt\<bar> < 2 ^ 512"
  shows "get_dynamics dt =
     Inr ([[1, 0, dt, 0], [0, 1, 0, dt], [0, 0, 1, 0], [0, 0, 0, 1]],
          [[dt\<^sup>2 / 2, 0], [0, dt\<^sup>2 / 2], [dt, 0], [0, dt]])"
  using assms by (simp add: get_dynamics_def)

lemma get_dynamics_returned:
  assumes "get_dynamics dt = Inr (Am, Bm)"
  shows "Am = [[1, 0, dt, 0], [0, 1, 0, dt], [0, 0, 1, 0], [0, 0, 0, 1]]"
    and "Bm = [[dt\<^sup>2 / 2, 0], [0, dt\<^sup>2 / 2], [dt, 0], [0, dt]]"
  using assms by (auto simp: get_dynamics_def split: if_splits)

text \<open>
  Claim C1. For every time step \<open>dt\<close>, state \<open>[px, py, vx, vy]\<close> and input
  \<open>[ax, ay]\<close>, the matrices \<open>(A, B)\<close> returned by \<open>get_dynamics dt\<close> give
  \<open>A \<cdot> state + B \<cdot> input = [px + vx dt + ax dt\<^sup>2 / 2, py + vy dt + ay dt\<^sup>2 / 2,
  vx + ax dt, vy + ay dt]\<close>: one step of constant-acceleration kinematics. Matrices
  are returned for every \<open>dt\<close> whose square is a double.
\<close>

theorem get_dynamics_kinematics:
  "(\<bar>dt\<bar> < 2 ^ 512 \<longrightarrow> (\<exists>Am Bm. get_dynamics dt = Inr (Am, Bm)))
   \<and> (\<forall>Am Bm. get_dynamics dt = Inr (Am, Bm) \<longrightarrow>
        vec_add (mat_vec Am [px, py, vx, vy]) (mat_vec Bm [ax, ay])
        = [px + vx * dt + 0.5 * ax * dt\<^sup>2,
           py + vy * dt + 0.5 * ay * dt\<^sup>2,
           vx + ax * dt,
           vy + ay * dt])"
proof (intro conjI allI impI)
  assume "\<bar>dt\<bar> < 2 ^ 512"
  then show "\<exists>Am Bm. get_dynamics dt = Inr (Am, Bm)"
    using get_dynamics_in_range by blast
next
  fix Am Bm
  assume g: "get_dynamics dt = Inr (Am, Bm)"
  show "vec_add (mat_vec Am [px, py, vx, vy]) (mat_vec Bm [ax, ay])
        = [px + vx * dt + 0.5 * ax * dt\<^sup>2,
           py + vy * dt + 0.5 * ay * dt\<^sup>2,
           vx + ax * dt,
           vy + ay * dt]"
    unfolding get_dynamics_returned [OF g]
    by (simp add: mat_vec_def vec_add_def dot_def)
qed

theorem get_dynamics_kinematics_witness:
  "\<bar>2 :: real\<bar> < 2 ^ 512
   \<and> get_dynamics 2 = Inr ([[1, 0, 2, 0], [0, 1, 0, 2], [0, 0, 1, 0], [0, 0, 0, 1]],
                           [[2, 0], [0, 2], [2, 0], [0, 2]])
   \<and> vec_add (mat_vec [[1, 0, 2, 0], [0, 1, 0, 2], [0, 0, 1, 0], [0, 0, 0, 1]] [1, 2, 3, 4])
              (mat_vec [[2, 0], [0, 2], [2, 0], [0, 2]] [5, 6])
       = [17, 22, 13, 16]"
proof -
  have r: "\<bar>2 :: real\<bar> < 2 ^ 512" by simp
  have g: "get_dynamics 2 = Inr ([[1, 0, 2, 0], [0, 1, 0, 2], [0, 0, 1, 0], [0, 0, 0, 1]],
                         [[2, 0], [0, 2], [2, 0], [0, 2]])"
    by (simp add: get_dynamics_def)
  have "vec_add (mat_vec [[1, 0, 2, 0], [0, 1, 0, 2], [0, 0, 1, 0], [0, 0, 0, 1]] [1, 2, 3, 4])
              (mat_vec [[2, 0], [0, 2], [2, 0], [0, 2]] [5, 6])
       = [1 + 3 * 2 + 0.5 * 5 * 2\<^sup>2, 2 + 4 * 2 + 0.5 * 6 * 2\<^sup>2, 3 + 5 * 2, 4 + 6 * (2 :: real)]"
    using get_dynamics_kinematics [of 2 1 2 3 4 5 6] g by blast
  then have k: "vec_add (mat_vec [[1, 0, 2, 0], [0, 1, 0, 2], [0, 0, 1, 0], [0, 0, 0, 1]] [1, 2, 3, 4])
              (mat_vec [[2, 0], [0, 2], [2, 0], [0, 2]] [5, 6])
       = [17, 22, 13, 16 :: real]"
    by simp
  show ?thesis by (intro conjI r g k)
qed

text \<open>
  Claim C7, as amended. \<open>get_dynamics\<close> accepts every \<open>dt\<close> of absolute value below
  \<open>2\<^sup>5\<^sup>1\<^sup>2\<close> and returns matrices that depend on \<open>dt\<close> alone; at \<open>dt = 0\<close> it
  returns the 4-by-4 identity for \<open>A\<close> and the 4-by-2 zero matrix for \<open>B\<close>.
\<close>

theorem get_dynamics_accepts:
  "(\<bar>dt\<bar> < 2 ^ 512 \<longrightarrow>
      get_dynamics dt =
        Inr ([[1, 0, dt, 0], [0, 1, 0, dt], [0, 0, 1, 0], [0, 0, 0, 1]],
             [[dt\<^sup>2 / 2, 0], [0, dt\<^sup>2 / 2], [dt, 0], [0, dt]]))
   \<and> get_dynamics 0 = Inr (eye 4, zeros 4 2)"
  by (simp add: get_dynamics_def eye_def zeros_def upt_rec numeral_eq_Suc)

theorem get_dynamics_accepts_witness:
  "\<bar>2 :: real\<bar> < 2 ^ 512
   \<and> get_dynamics 2 = Inr ([[1, 0, 2, 0], [0, 1, 0, 2], [0, 0, 1, 0], [0, 0, 0, 1]],
                           [[2\<^sup>2 / 2, 0], [0, 2\<^sup>2 / 2], [2, 0], [0, 2]])
   \<and> get_dynamics 0 = Inr (eye 4, zeros 4 2)"
proof -
  have h: "\<bar>2 :: real\<bar> < 2 ^ 512" by simp
  show ?thesis
    using get_dynamics_accepts [of 2] h by blast
qed

text \<open>
  The time step \<open>10\<^sup>2\<^sup>0\<^sup>0\<close> is rejected: its square is beyond the doubles and the
  power raises OverflowError.
\<close>

theorem get_dynamics_overflow_counterexample:
  "get_dynamics (10 ^ 200) = Inl OverflowError"
  by (simp add: get_dynamics_def)

section \<open>Properties of the waypoint indices\<close>

lemma linspace_idx_eq:
  "linspace_idx T P = map (\<lambda>i. let r = entry T P i in if 0 \<le> r then \<lfloor>r\<rfloor> else \<lceil>r\<rceil>) [0..<P]"
  by (cases "P = 0") (simp_all add: linspace_idx_def linspace_def astype_int_def entry_def Let_def)

lemma entry_0: "entry T P 0 = 0"
  by (simp add: entry_def Let_def)


lemma rounding_constant: "(1 + 1 / 2 ^ 53) ^ 6 / (1 - 1 / 2 ^ 53) \<le> (1 + 1 / 2 ^ 50 :: real)"
  by (simp add: power_divide)

lemma entry_bounds:
  assumes "1 \<le> T" and "1 \<le> P"
  shows "0 \<le> entry T P i"
    and "entry T P i \<le> real i * real (T - 1) / real P * (1 + 1 / 2 ^ 50)"
proof -
  define u :: real where "u = 1 / 2 ^ 53"
  define m where "m = real (T - 1)"
  define b where "b = double m"
  define delta where "delta = double (b - double 0)"
  define dv where "dv = double (real P)"
  define q where "q = delta / dv"
  define stp where "stp = double q"
  define di where "di = double (real i)"
  define y where "y = (if stp = 0 then double (double (di / dv) * delta) else double (di * stp))"
  have u: "0 < u" "u < 1" by (simp_all add: u_def)
  have e: "entry T P i = double (y + double 0)"
    using assms(1)
    by (simp add: entry_def Let_def y_def di_def stp_def q_def dv_def delta_def b_def m_def
        of_nat_diff)
  have m: "0 \<le> m" by (simp add: m_def)
  have b: "0 \<le> b" "b \<le> m * (1 + u)"
    unfolding b_def u_def using double_bounds [OF m] by simp_all
  have delta: "0 \<le> delta" "delta \<le> b * (1 + u)"
    unfolding delta_def u_def using double_bounds [OF b(1)] by simp_all
  have delta': "delta \<le> m * (1 + u) ^ 2"
  proof -
    have "b * (1 + u) \<le> (m * (1 + u)) * (1 + u)"
      using b(2) u by (intro mult_right_mono) simp_all
    then show ?thesis using delta(2) by (simp add: power2_eq_square algebra_simps)
  qed
  have P: "0 < real P" using assms(2) by simp
  have dv: "real P * (1 - u) \<le> dv" "0 < dv"
    unfolding dv_def u_def using double_bounds(3) [of "real P"] double_pos [OF P] by simp_all
  have Pu: "0 < real P * (1 - u)" using P u by simp
  have q: "0 \<le> q" "q \<le> m * (1 + u) ^ 2 / (real P * (1 - u))"
  proof -
    show "0 \<le> q" unfolding q_def using delta(1) dv(2) by simp
    show "q \<le> m * (1 + u) ^ 2 / (real P * (1 - u))"
      unfolding q_def using delta(1) delta' dv(1) Pu by (intro frac_le) simp_all
  qed
  have stp: "0 \<le> stp" "stp \<le> q * (1 + u)"
    unfolding stp_def u_def using double_bounds [OF q(1)] by simp_all
  have di: "0 \<le> di" "di \<le> real i * (1 + u)"
    unfolding di_def u_def using double_bounds [of "real i"] by simp_all
  have y: "0 \<le> y \<and> y \<le> real i * q * (1 + u) ^ 3"
  proof (cases "stp = 0")
    case True
    have "q = 0"
    proof (rule ccontr)
      assume "q \<noteq> 0"
      then have "0 < q" using q(1) by simp
      then have "0 < stp" unfolding stp_def by (rule double_pos)
      then show False using True by simp
    qed
    then have "delta = 0" using dv(2) by (simp add: q_def)
    then have "y = 0" using True by (simp add: y_def)
    moreover have "0 \<le> real i * q * (1 + u) ^ 3" using q(1) u by simp
    ultimately show ?thesis by simp
  next
    case False
    then have yy: "y = double (di * stp)" by (simp add: y_def)
    have p0: "0 \<le> di * stp" using di(1) stp(1) by simp
    have "di * stp \<le> (real i * (1 + u)) * (q * (1 + u))"
      using di stp u q(1) by (intro mult_mono) simp_all
    moreover have "y \<le> (di * stp) * (1 + u)" "0 \<le> y"
      unfolding yy u_def using double_bounds [OF p0] by simp_all
    ultimately have "y \<le> ((real i * (1 + u)) * (q * (1 + u))) * (1 + u)"
      using u by (meson add_nonneg_nonneg less_imp_le mult_right_mono order_trans zero_le_one)
    then show ?thesis using \<open>0 \<le> y\<close> by (simp add: power3_eq_cube algebra_simps)
  qed
  have d0: "double 0 = 0" by simp
  show "0 \<le> entry T P i"
    unfolding e d0 using y by (intro double_bounds(1)) simp
  have "entry T P i \<le> y * (1 + u)"
    unfolding e d0 u_def using double_bounds(2) [of y] y by simp
  also have "\<dots> \<le> (real i * q * (1 + u) ^ 3) * (1 + u)"
    using y u by (intro mult_right_mono) simp_all
  also have "\<dots> = real i * (1 + u) ^ 4 * q"
    by (simp add: power3_eq_cube power4_eq_xxxx algebra_simps)
  also have "\<dots> \<le> real i * (1 + u) ^ 4 * (m * (1 + u) ^ 2 / (real P * (1 - u)))"
    using q(2) u by (intro mult_left_mono) simp_all
  also have "\<dots> = (real i * m / real P) * ((1 + u) ^ 6 / (1 - u))"
    using P u by (simp add: field_simps power_add [symmetric])
  also have "\<dots> \<le> (real i * m / real P) * (1 + 1 / 2 ^ 50)"
    using rounding_constant m P unfolding u_def by (intro mult_left_mono) simp_all
  finally show "entry T P i \<le> real i * real (T - 1) / real P * (1 + 1 / 2 ^ 50)"
    by (simp add: m_def)
qed


lemma scaled_below:
  fixes c :: real
  assumes "0 < c" and "1 \<le> P" and "P \<le> 2 ^ 50" and "i < P"
  shows "real i * c / real P * (1 + 1 / 2 ^ 50) < c"
proof -
  have P: "0 < real P" "real P \<le> 2 ^ 50"
    using assms(2,3) by (simp_all add: of_nat_le_iff [of P "2 ^ 50", where ?'a = real, simplified])
  have i: "real i \<le> real P - 1" using assms(4) by (simp add: of_nat_diff Suc_le_eq [symmetric] le_diff_conv2)
  have "(real P - 1) / 2 ^ 50 < 1" using P by simp
  then have k: "(real P - 1) * (1 + 1 / 2 ^ 50) < real P"
    by (simp add: algebra_simps)
  have "real i * c / real P * (1 + 1 / 2 ^ 50) = (c / real P) * (real i * (1 + 1 / 2 ^ 50))"
    by simp
  also have "\<dots> \<le> (c / real P) * ((real P - 1) * (1 + 1 / 2 ^ 50))"
    using assms(1) P i by (intro mult_left_mono mult_right_mono) simp_all
  also have "\<dots> < (c / real P) * real P"
    using assms(1) P k by (intro mult_strict_left_mono) simp_all
  also have "\<dots> = c" using P by simp
  finally show ?thesis .
qed

lemma entry_below_last:
  assumes "2 \<le> T" and "1 \<le> P" and "P \<le> 2 ^ 50" and "i < P"
  shows "entry T P i < real (T - 1)"
proof -
  have T: "1 \<le> T" "0 < real (T - 1)" using assms(1) by simp_all
  have "entry T P i \<le> real i * real (T - 1) / real P * (1 + 1 / 2 ^ 50)"
    using T(1) assms(2) by (rule entry_bounds(2))
  also have "\<dots> < real (T - 1)"
    using T(2) assms(2-4) by (rule scaled_below)
  finally show ?thesis .
qed

lemma entry_1_below_1:
  assumes "2 \<le> T" and "T \<le> P" and "P \<le> 2 ^ 50"
  shows "entry T P 1 < 1"
proof -
  have T: "1 \<le> T" "1 \<le> P" "0 < real P" using assms(1,2) by simp_all
  have m: "real (T - 1) \<le> real P - 1" using assms(1,2) by (simp add: of_nat_diff)
  have "(real P - 1) / 2 ^ 50 < 1"
    using assms(3) by (simp add: of_nat_le_iff [of P "2 ^ 50", where ?'a = real, simplified])
  then have k: "(real P - 1) * (1 + 1 / 2 ^ 50) < real P"
    by (simp add: algebra_simps)
  have "entry T P 1 \<le> real 1 * real (T - 1) / real P * (1 + 1 / 2 ^ 50)"
    using T(1,2) by (rule entry_bounds(2))
  also have "\<dots> = (1 / real P) * (real (T - 1) * (1 + 1 / 2 ^ 50))" by simp
  also have "\<dots> \<le> (1 / real P) * ((real P - 1) * (1 + 1 / 2 ^ 50))"
    using T(3) m by (intro mult_left_mono mult_right_mono) simp_all
  also have "\<dots> < (1 / real P) * real P"
    using T(3) k by (intro mult_strict_left_mono) simp_all
  also have "\<dots> = 1" using T(3) by simp
  finally show ?thesis .
qed

lemma linspace_idx_nth:
  assumes "1 \<le> T" and "1 \<le> P" and "i < P"
  shows "linspace_idx T P ! i = \<lfloor>entry T P i\<rfloor>"
  using assms entry_bounds(1) [OF assms(1,2), of i] by (simp add: linspace_idx_eq Let_def)

lemma length_linspace_idx [simp]: "length (linspace_idx T P) = P"
  by (simp add: linspace_idx_eq)

lemma linspace_idx_first:
  assumes "1 \<le> T" and "1 \<le> P"
  shows "linspace_idx T P ! 0 = 0"
  using linspace_idx_nth [OF assms, of 0] assms(2) by (simp add: entry_0)

lemma point_idx_Inr:
  assumes "1 \<le> P"
  shows "point_idx T P = Inr ((linspace_idx T P)[0 := 0])"
proof -
  have "linspace_idx T P \<noteq> []" using assms by (metis length_linspace_idx list.size(3) not_one_le_zero)
  then show ?thesis by (simp add: point_idx_def Let_def)
qed

text \<open>
  Claim C10. The assignment \<^verbatim>\<open>point_idx[0] = 0\<close> is redundant: for every grid
  length \<open>T \<ge> 1\<close> and waypoint count \<open>P \<ge> 1\<close> the first entry of the
  truncated linspace is already 0, so the index array with the assignment equals the
  one without it.
\<close>

theorem point_idx_assignment_redundant:
  "1 \<le> T \<Longrightarrow> 1 \<le> P \<Longrightarrow> point_idx T P = Inr (linspace_idx T P)"
proof -
  assume a: "1 \<le> T" "1 \<le> P"
  have "(linspace_idx T P)[0 := 0] = linspace_idx T P"
    using linspace_idx_first [OF a] by (metis list_update_id)
  then show ?thesis using point_idx_Inr [OF a(2)] by simp
qed


theorem point_idx_assignment_redundant_witness:
  "(1::nat) \<le> 6 \<and> (1::nat) \<le> 3 \<and> point_idx 6 3 = Inr (linspace_idx 6 3)"
  using point_idx_assignment_redundant [of 6 3] by simp

text \<open>
  Claim C3, as amended. For \<open>T \<ge> 2\<close> and \<open>1 \<le> P \<le> 2\<^sup>5\<^sup>0\<close> the indices are the
  first \<open>P\<close> entries of \<open>linspace 0 (T - 1) (P + 1)\<close> truncated to integers, with the
  first set to 0; they start at 0 and every index is below \<open>T - 1\<close>, so none is the
  index \<open>T - 1\<close> of the loop closure. Even spacing is not part of the statement.
\<close>

theorem point_idx_spacing:
  assumes "2 \<le> T" and "1 \<le> P" and "P \<le> 2 ^ 50"
  shows "\<exists>idx. point_idx T P = Inr idx
           \<and> idx = (take P (astype_int (linspace 0 (real T - 1) (P + 1)))) [0 := 0]
           \<and> length idx = P
           \<and> idx ! 0 = 0
           \<and> (\<forall>i<P. 0 \<le> idx ! i \<and> idx ! i < int T - 1)"
proof -
  let ?idx = "(linspace_idx T P)[0 := 0]"
  have T1: "1 \<le> T" using assms(1) by simp
  have eq: "point_idx T P = Inr ?idx" using assms(2) by (rule point_idx_Inr)
  have same: "?idx = linspace_idx T P"
    using linspace_idx_first [OF T1 assms(2)] by (metis list_update_id)
  have len: "length (astype_int (linspace 0 (real T - 1) (P + 1))) = Suc P"
    using assms(2) by (simp add: astype_int_def linspace_def Let_def)
  have src: "?idx = (take P (astype_int (linspace 0 (real T - 1) (P + 1)))) [0 := 0]"
  proof -
    have "take P (astype_int (linspace 0 (real T - 1) (P + 1)))
          = butlast (astype_int (linspace 0 (real T - 1) (P + 1)))"
      using len by (simp add: butlast_conv_take)
    also have "\<dots> = linspace_idx T P"
      using T1 by (simp add: linspace_idx_def of_nat_diff)
    finally show ?thesis by simp
  qed
  have len': "length ?idx = P" by simp
  have zero: "?idx ! 0 = 0" using assms(2) by simp
  have range: "\<forall>i<P. 0 \<le> ?idx ! i \<and> ?idx ! i < int T - 1"
  proof (intro allI impI)
    fix i assume i: "i < P"
    have n: "?idx ! i = \<lfloor>entry T P i\<rfloor>"
      unfolding same using T1 assms(2) i by (rule linspace_idx_nth)
    have "0 \<le> entry T P i" using T1 assms(2) by (rule entry_bounds(1))
    moreover have "entry T P i < real (T - 1)"
      using assms i by (rule entry_below_last)
    ultimately show "0 \<le> ?idx ! i \<and> ?idx ! i < int T - 1"
      unfolding n using T1 by (simp add: floor_less_iff of_nat_diff)
  qed
  show ?thesis
    by (intro exI [of _ ?idx] conjI eq src len' zero range)
qed

theorem point_idx_spacing_witness:
  "(2::nat) \<le> 6 \<and> (1::nat) \<le> 3 \<and> (3::nat) \<le> 2 ^ 50 \<and>
   (\<exists>idx. point_idx 6 3 = Inr idx
      \<and> idx = (take 3 (astype_int (linspace 0 (real 6 - 1) (3 + 1)))) [0 := 0]
      \<and> length idx = 3 \<and> idx ! 0 = 0
      \<and> (\<forall>i<3. 0 \<le> idx ! i \<and> idx ! i < int 6 - 1))"
proof -
  have h1: "(2::nat) \<le> 6" and h2: "(1::nat) \<le> 3" and h3: "(3::nat) \<le> 2 ^ 50" by simp_all
  show ?thesis
    by (intro conjI h1 h2 h3 point_idx_spacing [OF h1 h2 h3])
qed

lemma entry_6_3:
  "entry 6 3 0 = 0" "entry 6 3 (Suc 0) = 7505999378950827 / 2 ^ 52"
  "entry 6 3 (Suc (Suc 0)) = 7505999378950827 / 2 ^ 51"
  by (simp_all add: entry_def double_eval)

text \<open>
  The indices are not evenly spaced in general: six time steps and three waypoints give
  the indices 0, 1, 3.
\<close>

theorem point_idx_uneven_counterexample:
  "point_idx 6 3 = Inr [0, 1, 3] \<and> \<not> evenly_spaced [0, 1, 3]"
  by (simp add: point_idx_def linspace_idx_eq Let_def upt_rec entry_6_3)

text \<open>
  Two more values of the index computation. With 31 time steps and 22 waypoints the
  entry 11 is \<open>11 * (30 / 22)\<close> in doubles, just below 15, and the index is 14. With two
  time steps and \<open>2\<^sup>5\<^sup>4\<close> waypoints the last index is 1, the index of the loop closure:
  the bound on the number of waypoints is needed, though no array of that length fits in
  memory.
\<close>

lemma entry_31_22: "\<lfloor>entry 31 22 11\<rfloor> = 14"
  by (simp add: entry_def double_eval)

lemma entry_2_large: "\<lfloor>entry 2 (2 ^ 54) (2 ^ 54 - 1)\<rfloor> = 1"
  by (simp add: entry_def double_eval)


section \<open>Properties of the simulator\<close>

lemma normal_samples:
  "normal g s sz = (res, g') \<Longrightarrow> samples g' = samples g"
  by (auto simp: normal_def split: prod.splits if_splits)

lemma step_heap:
  assumes "step h self x u = (res, h')"
  shows "\<exists>g as. h' = h\<lparr>generators := (generators h)[rng (simulators h ! self) := g],
                        arrays := arrays h @ as\<rparr>
               \<and> samples g = samples (generators h ! rng (simulators h ! self))
               \<and> (case res of Inl e \<Rightarrow> as = [] | Inr r \<Rightarrow> length as = 1 \<and> r = length (arrays h))"
proof -
  let ?sim = "simulators h ! self"
  let ?cfg = "configs h ! config ?sim"
  obtain noise g where n: "normal (generators h ! rng ?sim)
      (trajectory_noise ?cfg * time_step ?cfg) (shape (arrays h ! x)) = (noise, g)"
    by (cases "normal (generators h ! rng ?sim)
      (trajectory_noise ?cfg * time_step ?cfg) (shape (arrays h ! x))")
  have s: "samples g = samples (generators h ! rng ?sim)"
    using n by (rule normal_samples)
  show ?thesis
    using assms s unfolding step_def Let_def n
    by (intro exI [of _ g]) (auto split: sum.splits)
qed


lemma wf_heap_Simulator_init:
  assumes "wf_heap h" and "cfg < length (configs h)"
    and "Simulator_init h cfg entropy = Inr (self, h')"
  shows "wf_heap h'" and "self = length (simulators h)"
    and "rng (simulators h' ! self) = length (generators h)"
proof -
  obtain a b where g: "get_dynamics (time_step (configs h ! cfg)) = Inr (a, b)"
    using assms(3) by (auto simp: Simulator_init_def split: sum.splits)
  have d: "dims a 4 4 \<and> dims b 4 2"
    using get_dynamics_returned [OF g] by (simp add: dims_def)
  have h': "h' = h\<lparr>arrays := arrays h @ [a, b],
                     generators := generators h @ [\<lparr>samples = entropy, pos = 0\<rparr>],
                     simulators := simulators h @
                       [\<lparr>config = cfg, A = length (arrays h), B = length (arrays h) + 1,
                         rng = length (generators h)\<rparr>]\<rparr>"
    and self: "self = length (simulators h)"
    using assms(3) by (simp_all add: Simulator_init_def g Let_def)
  have old: "list_all (\<lambda>s. rng s < length (generators h)) (simulators h)"
    using assms(1) by (auto simp: wf_heap_def list_all_iff)
  then have fresh: "length (generators h) \<notin> rng ` set (simulators h)"
    by (auto simp: list_all_iff)
  show "wf_heap h'"
    using assms(1,2) d fresh
    by (auto simp: h' wf_heap_def list_all_iff nth_append)
  show "self = length (simulators h)" by (rule self)
  show "rng (simulators h' ! self) = length (generators h)"
    by (simp add: h' self)
qed

text \<open>
  Claim C8. \<open>step\<close> changes nothing of a simulator but the position of its generator:
  the simulator objects, the configurations and the simulator's matrices \<open>A\<close> and
  \<open>B\<close> are as before, its generator keeps its stream, and the generator of every
  other simulator is a different object and is left as it was.
\<close>

theorem step_frame:
  assumes "wf_heap h" and "self < length (simulators h)"
    and "step h self x u = (res, h')"
  shows "simulators h' = simulators h
       \<and> configs h' = configs h
       \<and> arrays h' ! A (simulators h ! self) = arrays h ! A (simulators h ! self)
       \<and> arrays h' ! B (simulators h ! self) = arrays h ! B (simulators h ! self)
       \<and> samples (generators h' ! rng (simulators h ! self))
           = samples (generators h ! rng (simulators h ! self))
       \<and> (\<forall>other < length (simulators h). other \<noteq> self \<longrightarrow>
             rng (simulators h ! other) \<noteq> rng (simulators h ! self)
           \<and> generators h' ! rng (simulators h ! other)
               = generators h ! rng (simulators h ! other))"
proof -
  let ?sim = "simulators h ! self"
  from step_heap [OF assms(3)] obtain g as where
    h': "h' = h\<lparr>generators := (generators h)[rng ?sim := g], arrays := arrays h @ as\<rparr>"
    and s: "samples g = samples (generators h ! rng ?sim)"
    by blast
  have sim: "A ?sim < length (arrays h)" "B ?sim < length (arrays h)"
    "rng ?sim < length (generators h)"
    using assms(1,2) by (auto simp: wf_heap_def list_all_length)
  have dist: "rng (simulators h ! other) \<noteq> rng ?sim"
    if "other < length (simulators h)" "other \<noteq> self" for other
    using assms(1,2) that by (auto simp: wf_heap_def distinct_conv_nth)
  have other: "rng (simulators h ! other) \<noteq> rng ?sim
      \<and> generators h' ! rng (simulators h ! other) = generators h ! rng (simulators h ! other)"
    if "other < length (simulators h)" "other \<noteq> self" for other
    using dist [OF that] by (simp add: h')
  have fields: "simulators h' = simulators h" "configs h' = configs h"
    "arrays h' ! A ?sim = arrays h ! A ?sim" "arrays h' ! B ?sim = arrays h ! B ?sim"
    "samples (generators h' ! rng ?sim) = samples (generators h ! rng ?sim)"
    using sim s by (simp_all add: h' nth_append)
  show ?thesis
    using fields other by blast
qed

text \<open>
  Claim C9. \<open>step\<close> does not modify the arrays it is given: after the call the arrays
  at \<open>x\<close> and \<open>u\<close> are as before, and the result is a new array, at an address the
  store did not have, different from both.
\<close>

theorem step_arguments_unchanged:
  assumes "x < length (arrays h)" and "u < length (arrays h)"
    and "step h self x u = (Inr r, h')"
  shows "arrays h' ! x = arrays h ! x
       \<and> arrays h' ! u = arrays h ! u
       \<and> r \<noteq> x \<and> r \<noteq> u
       \<and> length (arrays h) \<le> r \<and> r < length (arrays h')"
proof -
  from step_heap [OF assms(3)] obtain g as where
    h': "h' = h\<lparr>generators := (generators h)[rng (simulators h ! self) := g],
               arrays := arrays h @ as\<rparr>"
    and r: "length as = 1 \<and> r = length (arrays h)"
    by auto
  show ?thesis
    using assms(1,2) r by (simp add: h' nth_append)
qed

lemma example_heap_built:
  "\<exists>h1. Simulator_init (initial_heap example_config) 0 (\<lambda>i. real i) = Inr (0, h1)
        \<and> Simulator_init h1 0 (\<lambda>i. 1) = Inr (1, example_heap)"
  by (simp add: Simulator_init_def initial_heap_def get_dynamics_def example_config_def
      example_heap_def)

lemma example_heap_wf: "wf_heap example_heap"
  by (simp add: example_heap_def wf_heap_def dims_def)

lemma example_step:
  "step example_heap 0 0 (Suc 0) =
     (Inr 6, example_heap\<lparr>generators := (generators example_heap)[0 := \<lparr>samples = \<lambda>i. real i, pos = 4\<rparr>],
                          arrays := arrays example_heap @ [[[13 / 2, 11, 12, 16]]]\<rparr>)"
  by (simp add: example_heap_def step_def normal_def shape_def matmul_def mat_mul_def
      transposed_def np_add_def add_row_def vec_add_def dot_def example_config_def
      upt_rec numeral_eq_Suc)


lemma dims_transpose:
  assumes "dims M r c" and "0 < r"
  shows "dims (transpose M) c r"
proof -
  have ne: "M = [] \<Longrightarrow> c = 0" using assms by (auto simp: dims_def)
  have len: "\<And>i. i < length M \<Longrightarrow> length (M ! i) = c"
    using assms by (auto simp: dims_def list_all_length)
  have t: "transpose M = map (\<lambda>i. map (\<lambda>j. M ! j ! i) [0..<length M]) [0..<c]"
    using ne len by (rule transpose_rectangle)
  show ?thesis
    using assms by (simp add: t dims_def list_all_iff)
qed

lemma dims_mat_mul:
  "dims (mat_mul X Y) (length X) (length (transpose Y))"
  by (simp add: dims_def mat_mul_def list_all_iff)

lemma collect_map2_add_row:
  "list_all2 (\<lambda>v w. length v = length w) X Y \<Longrightarrow>
   collect (map2 add_row X Y) = Inr (mat_add X Y)"
  by (induction rule: list_all2_induct) (simp_all add: mat_add_def add_row_def)

lemma np_add_same_shape:
  assumes "dims X r c" and "dims Y r c"
  shows "np_add X Y = Inr (mat_add X Y)" and "dims (mat_add X Y) r c"
proof -
  have l: "list_all2 (\<lambda>v w. length v = length w) X Y"
    using assms by (auto simp: dims_def list_all2_conv_all_nth list_all_length)
  show "np_add X Y = Inr (mat_add X Y)"
    using assms collect_map2_add_row [OF l] by (simp add: np_add_def dims_def)
  show "dims (mat_add X Y) r c"
    using assms
    by (auto simp: dims_def mat_add_def vec_add_def list_all_length)
qed

lemma mat_add_zero:
  assumes "dims S r c"
  shows "mat_add S (map (\<lambda>i. map (\<lambda>j. 0) [0..<c]) [0..<r]) = S"
proof (rule nth_equalityI)
  show "length (mat_add S (map (\<lambda>i. map (\<lambda>j. 0) [0..<c]) [0..<r])) = length S"
    using assms by (simp add: mat_add_def dims_def)
next
  fix i assume "i < length (mat_add S (map (\<lambda>i. map (\<lambda>j. 0) [0..<c]) [0..<r]))"
  then have i: "i < r" "i < length S" "length (S ! i) = c"
    using assms by (auto simp: mat_add_def dims_def list_all_length)
  have "vec_add (S ! i) (map (\<lambda>j. 0) [0..<c]) = S ! i"
    using i(3) by (intro nth_equalityI) (simp_all add: vec_add_def)
  then show "mat_add S (map (\<lambda>i. map (\<lambda>j. 0) [0..<c]) [0..<r]) ! i = S ! i"
    using i by (simp add: mat_add_def)
qed

text \<open>
  Claim C4, as amended. For a batch of \<open>N\<close> states (\<open>N\<close> by 4) and \<open>N\<close> inputs
  (\<open>N\<close> by 2), and a noise scale \<open>trajectory_noise * time_step\<close> that is not
  negative, \<open>step\<close> returns \<open>x A\<^sup>T + u B\<^sup>T + noise\<close>, where the noise is the
  scale times the next \<open>4 N\<close> variates of the generator, shaped as \<open>x\<close>, and the
  generator moves on by \<open>4 N\<close>; with scale 0 the result is exactly
  \<open>x A\<^sup>T + u B\<^sup>T\<close>.
\<close>

theorem step_result:
  fixes h :: heap and self x u N :: nat
  defines "sim \<equiv> simulators h ! self"
  defines "scale \<equiv> trajectory_noise (configs h ! config sim) * time_step (configs h ! config sim)"
  defines "g \<equiv> generators h ! rng sim"
  defines "noise \<equiv> map (\<lambda>i. map (\<lambda>j. scale * samples g (pos g + i * 4 + j)) [0..<4]) [0..<N]"
  defines "ideal \<equiv> mat_add (mat_mul (arrays h ! x) (transposed (arrays h ! A sim)))
                            (mat_mul (arrays h ! u) (transposed (arrays h ! B sim)))"
  assumes wf: "wf_heap h" and self: "self < length (simulators h)"
    and x: "dims (arrays h ! x) N 4" and u: "dims (arrays h ! u) N 2"
    and nonneg: "0 \<le> scale"
  shows "\<exists>r h'. step h self x u = (Inr r, h')
           \<and> arrays h' ! r = mat_add ideal noise
           \<and> generators h' ! rng sim = g\<lparr>pos := pos g + N * 4\<rparr>
           \<and> (scale = 0 \<longrightarrow> arrays h' ! r = ideal)"
proof -
  let ?X = "arrays h ! x" and ?U = "arrays h ! u"
  let ?At = "transposed (arrays h ! A sim)" and ?Bt = "transposed (arrays h ! B sim)"
  have simwf: "rng sim < length (generators h)"
    "dims (arrays h ! A sim) 4 4" "dims (arrays h ! B sim) 4 2"
    using wf self by (auto simp: wf_heap_def list_all_length sim_def)
  have At: "dims ?At 4 4" and Bt: "dims ?Bt 2 4"
    using simwf by (simp_all add: transposed_def dims_transpose)
  have Att: "length (transpose ?At) = 4"
  proof -
    have "dims (transpose ?At) 4 4" using At by (rule dims_transpose) simp
    then show ?thesis by (simp add: dims_def)
  qed
  have Btt: "length (transpose ?Bt) = 4"
  proof -
    have "dims (transpose ?Bt) 4 2" using Bt by (rule dims_transpose) simp
    then show ?thesis by (simp add: dims_def)
  qed
  have sh: "shape ?X = (N, if N = 0 then 0 else 4)"
    using x by (cases ?X) (auto simp: shape_def dims_def)
  have nz: "normal g scale (shape ?X) = (Inr noise, g\<lparr>pos := pos g + N * 4\<rparr>)"
    using nonneg by (simp add: normal_def sh noise_def)
  have xa: "matmul ?X ?At = Inr (mat_mul ?X ?At)"
    using x At by (simp add: matmul_def dims_def)
  have ub: "matmul ?U ?Bt = Inr (mat_mul ?U ?Bt)"
    using u Bt by (simp add: matmul_def dims_def)
  have dxa: "dims (mat_mul ?X ?At) N 4"
    using dims_mat_mul [of ?X ?At] x by (simp add: Att dims_def)
  have dub: "dims (mat_mul ?U ?Bt) N 4"
    using dims_mat_mul [of ?U ?Bt] u by (simp add: Btt dims_def)
  have s1: "np_add (mat_mul ?X ?At) (mat_mul ?U ?Bt) = Inr ideal" and ds: "dims ideal N 4"
    using np_add_same_shape [OF dxa dub] by (simp_all add: ideal_def)
  have dn: "dims noise N 4"
    by (simp add: noise_def dims_def list_all_iff)
  have s2: "np_add ideal noise = Inr (mat_add ideal noise)"
    using ds dn by (rule np_add_same_shape)
  have st: "step h self x u =
      (Inr (length (arrays h)),
       h\<lparr>generators := (generators h)[rng sim := g\<lparr>pos := pos g + N * 4\<rparr>],
         arrays := arrays h @ [mat_add ideal noise]\<rparr>)"
    using nz xa ub s1 s2
    by (simp add: step_def Let_def sim_def [symmetric] scale_def [symmetric] g_def [symmetric])
  have zero: "mat_add ideal noise = ideal" if "scale = 0"
    using mat_add_zero [OF ds] that by (simp add: noise_def)
  show ?thesis
    unfolding st using simwf(1) zero by simp
qed


lemma reversed_heap_built:
  "Simulator_init (initial_heap reversed_config) 0 (\<lambda>i. real i) = Inr (0, reversed_heap)"
  by (simp add: Simulator_init_def initial_heap_def get_dynamics_def reversed_config_def
      reversed_heap_def)

text \<open>
  With a negative noise scale (here a negative time step) the draw raises ValueError and
  \<open>step\<close> returns no array.
\<close>

theorem step_negative_scale_counterexample:
  "wf_heap reversed_heap
   \<and> dims (arrays reversed_heap ! 0) 1 4 \<and> dims (arrays reversed_heap ! 1) 1 2
   \<and> step reversed_heap 0 0 1 = (Inl ValueError, reversed_heap)"
  by (simp add: reversed_heap_def wf_heap_def dims_def step_def normal_def shape_def
      reversed_config_def)

theorem step_result_witness:
  "wf_heap example_heap \<and> (0::nat) < length (simulators example_heap)
   \<and> dims (arrays example_heap ! 0) 1 4 \<and> dims (arrays example_heap ! 1) 1 2
   \<and> 0 \<le> trajectory_noise (configs example_heap ! 0) * time_step (configs example_heap ! 0)
   \<and> fst (step example_heap 0 0 1) = Inr 6
   \<and> arrays (snd (step example_heap 0 0 1)) ! 6 = [[13 / 2, 11, 12, 16]]
   \<and> pos (generators (snd (step example_heap 0 0 1)) ! 0) = 4"
  using step_result [of example_heap 0 0 1 1] example_heap_wf
  by (simp add: example_step) (simp add: example_heap_def dims_def example_config_def)

theorem step_frame_witness:
  "wf_heap example_heap \<and> (0::nat) < length (simulators example_heap)
   \<and> simulators (snd (step example_heap 0 0 1)) = simulators example_heap
   \<and> configs (snd (step example_heap 0 0 1)) = configs example_heap
   \<and> arrays (snd (step example_heap 0 0 1)) ! 2 = arrays example_heap ! 2
   \<and> arrays (snd (step example_heap 0 0 1)) ! 3 = arrays example_heap ! 3
   \<and> pos (generators (snd (step example_heap 0 0 1)) ! 0) = 4
   \<and> pos (generators example_heap ! 0) = 0
   \<and> generators (snd (step example_heap 0 0 1)) ! 1 = generators example_heap ! 1"
  using step_frame [OF example_heap_wf _ example_step] example_heap_wf
  by (simp add: example_step) (simp add: example_heap_def)

theorem step_arguments_unchanged_witness:
  "(0::nat) < length (arrays example_heap) \<and> (1::nat) < length (arrays example_heap)
   \<and> fst (step example_heap 0 0 1) = Inr 6
   \<and> arrays (snd (step example_heap 0 0 1)) ! 0 = [[1, 2, 3, 4]]
   \<and> arrays (snd (step example_heap 0 0 1)) ! 1 = [[5, 6]]
   \<and> length (arrays example_heap) = 6
   \<and> length (arrays (snd (step example_heap 0 0 1))) = 7"
  using step_arguments_unchanged [OF _ _ example_step]
  by (simp add: example_step) (simp add: example_heap_def)



section \<open>Properties of the trajectory fitter\<close>

lemma build_problem_fields:
  assumes "build_problem Am Bm t points = Inr p"
  shows "n_steps p = length t" and "1 \<le> length t"
    and "\<exists>idx. point_idx (length t) (length points) = Inr idx
           \<and> constraints p = [Dynamics Am Bm, PassThrough idx points, SameRow (- 1) 0]"
  using assms by (auto simp: build_problem_def Suc_le_eq split: if_splits sum.splits)

lemma close_to_nth:
  "close_to eps v w \<Longrightarrow> k < length v \<Longrightarrow> \<bar>v ! k - w ! k\<bar> \<le> eps"
  by (simp add: close_to_def list_all2_conv_all_nth)

lemma close_to_zero: "close_to 0 v w \<Longrightarrow> v = w"
  by (auto simp: close_to_def list_all2_conv_all_nth intro: nth_equalityI)

text \<open>
  Claim C2, as amended. When the solver answers the problem of a call
  \<open>optimize A B t points\<close> with a solution, \<open>optimize\<close> returns the solver's state
  sequence \<open>x\<close> unchanged, and \<open>x[T - 1]\<close> agrees with \<open>x[0]\<close> in each of the four
  components as closely as the solution meets the constraints: within \<open>eps\<close> when it
  meets them within \<open>eps\<close>, and exactly when it meets them exactly. \<open>T\<close> is the length
  of \<open>t\<close>.
\<close>

theorem optimize_loop_closure:
  assumes "build_problem Am Bm t points = Inr p"
    and "solve p = Solution st x u"
    and "feasible_within eps p x u"
  shows "optimize solve Am Bm t points = Inr (Some x, Some u)
       \<and> length (x ! (length t - 1)) = 4 \<and> length (x ! 0) = 4
       \<and> (\<forall>k<4. \<bar>x ! (length t - 1) ! k - x ! 0 ! k\<bar> \<le> eps)
       \<and> (eps = 0 \<longrightarrow> x ! (length t - 1) = x ! 0)"
proof -
  have T: "length x = length t" "1 \<le> length t"
    using assms(3) build_problem_fields(1,2) [OF assms(1)]
    by (simp_all add: feasible_within_def dims_def)
  have rows: "length (x ! (length t - 1)) = 4" "length (x ! 0) = 4"
    using assms(3) T by (simp_all add: feasible_within_def dims_def list_all_length)
  have "holds eps x u (SameRow (- 1) 0)"
    using assms(3) build_problem_fields(3) [OF assms(1)]
    by (auto simp: feasible_within_def)
  then have "close_to eps (py_index x (- 1)) (py_index x 0)" by simp
  then have c: "close_to eps (x ! (length t - 1)) (x ! 0)"
    using T by (simp add: py_index_def nat_diff_distrib')
  have gap: "\<forall>k<4. \<bar>x ! (length t - 1) ! k - x ! 0 ! k\<bar> \<le> eps"
    using close_to_nth [OF c] rows by simp
  have exact: "eps = 0 \<longrightarrow> x ! (length t - 1) = x ! 0"
    using c close_to_zero by blast
  have ret: "optimize solve Am Bm t points = Inr (Some x, Some u)"
    using assms(1,2) by (simp add: optimize_def)
  show ?thesis
    by (intro conjI ret rows gap exact)
qed

lemma exactly_close: "list_all2 (close_to 0) vs ws \<Longrightarrow> vs = ws"
  by (induction rule: list_all2_induct) (simp_all add: close_to_zero)

lemma shared_index_infeasible:
  assumes "holds 0 x u (PassThrough idx pts)" and "i < length idx" and "j < length idx"
    and "idx ! i = idx ! j"
  shows "pts ! i = pts ! j"
proof -
  let ?w = "map (\<lambda>i. take 2 (py_index x i)) idx"
  have w: "?w = pts" using assms(1) by (simp add: exactly_close)
  have "?w ! i = ?w ! j" using assms(2-4) by simp
  then show ?thesis unfolding w .
qed

text \<open>
  Claim C5, as amended. When the solver reports a status without a solution, as it must
  when the constraints are infeasible, \<open>optimize\<close> returns the pair
  \<^verbatim>\<open>(None, None)\<close>: no numeric arrays, but no exception and no status either. When
  the solver breaks down, its exception propagates. The constraints are infeasible, for
  one, when \<open>2 \<le> T \<le> P\<close> (with \<open>P \<le> 2\<^sup>5\<^sup>0\<close>) and the first two waypoints differ:
  they share the index 0.
\<close>

theorem optimize_no_solution:
  assumes "build_problem Am Bm t points = Inr p"
  shows "(\<forall>st. solve p = NoSolution st \<longrightarrow> optimize solve Am Bm t points = Inr (None, None))
       \<and> (solve p = SolverFailure \<longrightarrow> optimize solve Am Bm t points = Inl SolverError)
       \<and> (2 \<le> length t \<and> length t \<le> length points \<and> length points \<le> 2 ^ 50
            \<and> points ! 0 \<noteq> points ! 1
            \<longrightarrow> (\<forall>x u. \<not> feasible p x u))"
proof -
  have dup: False
    if h: "2 \<le> length t" "length t \<le> length points" "length points \<le> 2 ^ 50"
      "points ! 0 \<noteq> points ! 1"
      and f: "feasible p x u" for x u
  proof -
    let ?T = "length t" and ?P = "length points"
    have P: "1 \<le> ?T" "1 \<le> ?P" "0 < ?P" "1 < ?P" using h by linarith+
    let ?idx = "(linspace_idx ?T ?P)[0 := 0]"
    have "constraints p = [Dynamics Am Bm, PassThrough ?idx points, SameRow (- 1) 0]"
      using build_problem_fields(3) [OF assms] point_idx_Inr [OF P(2), of ?T] by simp
    then have w: "holds 0 x u (PassThrough ?idx points)"
      using f by (simp add: feasible_def feasible_within_def)
    have "0 \<le> entry ?T ?P 1" using P(1,2) by (rule entry_bounds(1))
    moreover have "entry ?T ?P 1 < 1" using h(1-3) by (rule entry_1_below_1)
    ultimately have "\<lfloor>entry ?T ?P 1\<rfloor> = 0" by (simp add: floor_eq_iff)
    then have "linspace_idx ?T ?P ! 1 = 0"
      using linspace_idx_nth [OF P(1,2,4)] by simp
    then have "?idx ! 0 = ?idx ! 1" using P by simp
    moreover have "0 < length ?idx" "1 < length ?idx" using P by simp_all
    ultimately have "points ! 0 = points ! 1"
      using shared_index_infeasible [OF w] by blast
    then show False using h(4) by simp
  qed
  show ?thesis
    using assms dup by (auto simp: optimize_def)
qed

lemma entry_2_2: "entry (Suc (Suc 0)) (Suc (Suc 0)) (Suc 0) = 1 / 2"
  by (simp add: entry_def double_eval)

lemma point_idx_2_1: "point_idx (Suc (Suc 0)) (Suc 0) = Inr [0]"
  by (simp add: point_idx_def linspace_idx_eq Let_def entry_0)

lemma point_idx_2_2: "point_idx (Suc (Suc 0)) (Suc (Suc 0)) = Inr [0, 0]"
  by (simp add: point_idx_def linspace_idx_eq Let_def upt_rec entry_0 entry_2_2)

lemma example_dynamics: "get_dynamics 1 = Inr (example_A, example_B)"
  by (simp add: get_dynamics_def example_A_def example_B_def)

lemma example_dims: "dims example_A 4 4" "dims example_B 4 2"
  by (simp_all add: example_A_def example_B_def dims_def)

lemma example_build:
  "build_problem example_A example_B [0, 1] [[3, 4]] = Inr example_problem"
  by (simp add: build_problem_def point_idx_2_1 example_problem_def example_dims)
     (simp add: dims_def)

lemma clash_build:
  "build_problem example_A example_B [0, 1] [[0, 0], [1, 0]] = Inr clash_problem"
  by (simp add: build_problem_def point_idx_2_2 clash_problem_def example_dims)
     (simp add: dims_def)

lemma inexact_solve:
  "inexact_solver example_problem
     = Solution OPTIMAL [[3, 4, 0, 0], [3 + 1 / 10 ^ 9, 4, 0, 0]] [[0, 0], [0, 0]]"
  by (simp add: inexact_solver_def)

lemma inexact_within:
  "feasible_within (1 / 10 ^ 8) example_problem
     [[3, 4, 0, 0], [3 + 1 / 10 ^ 9, 4, 0, 0]] [[0, 0], [0, 0]]"
  by (simp add: feasible_within_def example_problem_def dims_def example_A_def example_B_def
      py_index_def close_to_def mat_add_def mat_mul_def transposed_def vec_add_def dot_def)

text \<open>
  One waypoint and two time steps, with a solver that reports the status
  \<^verbatim>\<open>optimal\<close> for a solution meeting every constraint within \<open>10\<^sup>-\<^sup>8\<close>:
  \<open>optimize\<close> returns it, and its last state is not its first.
\<close>

theorem optimize_open_loop_counterexample:
  "build_problem example_A example_B [0, 1] [[3, 4]] = Inr example_problem
   \<and> inexact_solver example_problem
       = Solution OPTIMAL [[3, 4, 0, 0], [3 + 1 / 10 ^ 9, 4, 0, 0]] [[0, 0], [0, 0]]
   \<and> feasible_within (1 / 10 ^ 8) example_problem
       [[3, 4, 0, 0], [3 + 1 / 10 ^ 9, 4, 0, 0]] [[0, 0], [0, 0]]
   \<and> optimize inexact_solver example_A example_B [0, 1] [[3, 4]]
       = Inr (Some [[3, 4, 0, 0], [3 + 1 / 10 ^ 9, 4, 0, 0]], Some [[0, 0], [0, 0]])
   \<and> [[3, 4, 0, 0], [3 + 1 / 10 ^ 9, 4, 0, 0 :: real]] ! (length [0 :: real, 1] - 1)
       \<noteq> [[3, 4, 0, 0], [3 + 1 / 10 ^ 9, 4, 0, 0]] ! 0"
proof -
  have ret: "optimize inexact_solver example_A example_B [0, 1] [[3, 4]]
      = Inr (Some [[3, 4, 0, 0], [3 + 1 / 10 ^ 9, 4, 0, 0]], Some [[0, 0], [0, 0]])"
    unfolding optimize_def example_build by (simp add: inexact_solver_def)
  have gap: "[[3, 4, 0, 0], [3 + 1 / 10 ^ 9, 4, 0, 0 :: real]] ! (length [0 :: real, 1] - 1)
       \<noteq> [[3, 4, 0, 0], [3 + 1 / 10 ^ 9, 4, 0, 0]] ! 0"
    by simp
  show ?thesis
    by (intro conjI example_build inexact_solve inexact_within ret gap)
qed

theorem optimize_loop_closure_witness:
  "build_problem example_A example_B [0, 1] [[3, 4]] = Inr example_problem
   \<and> inexact_solver example_problem
       = Solution OPTIMAL [[3, 4, 0, 0], [3 + 1 / 10 ^ 9, 4, 0, 0]] [[0, 0], [0, 0]]
   \<and> feasible_within (1 / 10 ^ 8) example_problem
       [[3, 4, 0, 0], [3 + 1 / 10 ^ 9, 4, 0, 0]] [[0, 0], [0, 0]]
   \<and> \<bar>[[3, 4, 0, 0], [3 + 1 / 10 ^ 9, 4, 0, 0 :: real]] ! (length [0 :: real, 1] - 1) ! 0
        - [[3, 4, 0, 0], [3 + 1 / 10 ^ 9, 4, 0, 0]] ! 0 ! 0\<bar> \<le> 1 / 10 ^ 8"
proof -
  have "\<forall>k<4. \<bar>[[3, 4, 0, 0], [3 + 1 / 10 ^ 9, 4, 0, 0 :: real]] ! (length [0 :: real, 1] - 1) ! k
        - [[3, 4, 0, 0], [3 + 1 / 10 ^ 9, 4, 0, 0]] ! 0 ! k\<bar> \<le> 1 / 10 ^ 8"
    using optimize_loop_closure [where solve = inexact_solver,
        OF example_build inexact_solve inexact_within]
    by blast
  moreover have "(0::nat) < 4" by simp
  ultimately have g: "\<bar>[[3, 4, 0, 0], [3 + 1 / 10 ^ 9, 4, 0, 0 :: real]] ! (length [0 :: real, 1] - 1) ! 0
        - [[3, 4, 0, 0], [3 + 1 / 10 ^ 9, 4, 0, 0]] ! 0 ! 0\<bar> \<le> 1 / 10 ^ 8"
    by blast
  show ?thesis
    by (intro conjI example_build inexact_solve inexact_within g)
qed

text \<open>
  Two time steps and two different waypoints: both waypoints get the index 0, the
  constraints are infeasible, and \<open>optimize\<close> returns a pair of \<^verbatim>\<open>None\<close> rather
  than raising or returning a status.
\<close>

theorem optimize_no_status_counterexample:
  "build_problem example_A example_B [0, 1] [[0, 0], [1, 0]] = Inr clash_problem
   \<and> constraints clash_problem
       = [Dynamics example_A example_B, PassThrough [0, 0] [[0, 0], [1, 0]], SameRow (- 1) 0]
   \<and> optimize refusing_solver example_A example_B [0, 1] [[0, 0], [1, 0]] = Inr (None, None)"
  by (simp add: optimize_def clash_build refusing_solver_def) (simp add: clash_problem_def)

theorem optimize_no_solution_witness:
  "build_problem example_A example_B [0, 1] [[0, 0], [1, 0]] = Inr clash_problem
   \<and> refusing_solver clash_problem = NoSolution INFEASIBLE
   \<and> (2::nat) \<le> length [0 :: real, 1]
   \<and> length [0 :: real, 1] \<le> length [[0, 0 :: real], [1, 0]]
   \<and> length [[0, 0 :: real], [1, 0]] \<le> 2 ^ 50
   \<and> [[0, 0 :: real], [1, 0]] ! 0 \<noteq> [[0, 0], [1, 0]] ! 1
   \<and> optimize refusing_solver example_A example_B [0, 1] [[0, 0], [1, 0]] = Inr (None, None)
   \<and> (\<forall>x u. \<not> feasible clash_problem x u)"
  using optimize_no_solution [OF clash_build, where solve = refusing_solver] clash_build
  by (simp add: refusing_solver_def)


section \<open>Properties of the trajectory batch generator\<close>

lemma dims3_setitem:
  assumes "dims3 a n r c" and "setitem a i v r c = Inr a'"
  shows "dims3 a' n r c"
proof (cases v)
  case None
  then have "a' = a[i := replicate r (replicate c NaN)]"
    using assms(2) by (simp add: setitem_def)
  then show ?thesis
    using assms(1) by (auto simp: dims3_def list_all_iff dest!: set_update_subset_insert [THEN subsetD])
next
  case (Some m)
  then have m: "dims m r c" and a': "a' = a[i := map (map Num) m]"
    using assms(2) by (auto simp: setitem_def split: if_splits)
  show ?thesis
    using assms(1) m unfolding a'
    by (auto simp: dims3_def dims_def list_all_iff dest!: set_update_subset_insert [THEN subsetD])
qed

lemma fit_all_dims:
  assumes "fit_all solve Am Bm t points is xu = Inr xu'"
    and "dims3 (fst xu) n (length t) 4" and "dims3 (snd xu) n (length t) 2"
  shows "dims3 (fst xu') n (length t) 4 \<and> dims3 (snd xu') n (length t) 2"
  using assms
proof (induction "is" arbitrary: xu)
  case Nil
  then show ?case by simp
next
  case (Cons i rest)
  from Cons.prems(1) obtain xv uv x' u' where
    x': "setitem (fst xu) i xv (length t) 4 = Inr x'"
    and u': "setitem (snd xu) i uv (length t) 2 = Inr u'"
    and rest: "fit_all solve Am Bm t points rest (x', u') = Inr xu'"
    by (auto split: sum.splits prod.splits)
  have "dims3 x' n (length t) 4" using Cons.prems(2) x' by (rule dims3_setitem)
  moreover have "dims3 u' n (length t) 2" using Cons.prems(3) u' by (rule dims3_setitem)
  ultimately show ?case
    using Cons.IH [OF rest] by simp
qed

lemma fit_all_returns:
  assumes "\<forall>i\<in>set is. \<exists>xv uv. optimize solve Am Bm t (points ! i) = Inr (Some xv, Some uv)
              \<and> dims xv (length t) 4 \<and> dims uv (length t) 2"
  shows "\<exists>xu'. fit_all solve Am Bm t points is xu = Inr xu'"
  using assms
proof (induction "is" arbitrary: xu)
  case Nil
  then show ?case by simp
next
  case (Cons i rest)
  from Cons.prems obtain xv uv where
    o: "optimize solve Am Bm t (points ! i) = Inr (Some xv, Some uv)"
    and d: "dims xv (length t) 4" "dims uv (length t) 2"
    by auto
  have r: "\<forall>i\<in>set rest. \<exists>xv uv. optimize solve Am Bm t (points ! i) = Inr (Some xv, Some uv)
              \<and> dims xv (length t) 4 \<and> dims uv (length t) 2"
    using Cons.prems by simp
  show ?case
    using Cons.IH [OF r] o d by (simp add: setitem_def)
qed

lemma dims3_normal3:
  "normal3 g s (n, r, c) = (Inr noise, g') \<Longrightarrow> dims3 noise n r c"
  by (auto simp: normal3_def dims3_def list_all_iff split: if_splits)

lemma dims3_add_noise:
  assumes "dims3 x n r c" and "dims3 noise n r c"
  shows "dims3 (add_noise x noise) n r c"
  using assms
  by (auto simp: dims3_def add_noise_def list_all_length)

lemma dims3_replicate: "dims3 (replicate n (replicate r (replicate c v))) n r c"
  by (simp add: dims3_def list_all_iff)

lemma generate_returns_shapes:
  assumes "generate_expert_trajectories cfg solve entropy = Inr (states, inputs, points)"
    and "arange 0 (duration cfg) (time_step cfg) = Inr t"
  shows "dims3 states (nat (n_trajectories cfg)) (length t) 4
       \<and> dims3 inputs (nat (n_trajectories cfg)) (length t) 2"
proof -
  let ?n = "nat (n_trajectories cfg)"
  let ?x = "replicate ?n (replicate (length t) (replicate 4 (Num 0)))"
  let ?u = "replicate ?n (replicate (length t) (replicate 2 (Num 0)))"
  from assms obtain Am Bm pts g1 x' u' noise g2 where
    fit: "fit_all solve Am Bm t pts [0..<?n] (?x, ?u) = Inr (x', u')"
    and nz: "normal3 g1 (state_noise cfg * time_step cfg) (?n, length t, 4) = (Inr noise, g2)"
    and res: "states = add_noise x' noise" "inputs = u'"
    by (auto simp: generate_expert_trajectories_def Let_def
             split: if_splits sum.splits prod.splits)
  have d: "dims3 x' ?n (length t) 4 \<and> dims3 u' ?n (length t) 2"
    using fit_all_dims [OF fit] by (simp add: dims3_replicate)
  then show ?thesis
    using dims3_normal3 [OF nz] by (simp add: res dims3_add_noise)
qed

text \<open>
  Claim C6, as amended. When the calls before the fitting loop accept the configuration
  (\<open>get_dynamics\<close> and \<open>arange\<close> return, the number of trajectories is not negative,
  the waypoints are drawn), every call of \<open>optimize\<close> for a trajectory succeeds (it
  returns values, of the shapes of the variables), and the scale
  \<open>state_noise * time_step\<close> of the measurement noise is not negative,
  \<open>generate_expert_trajectories\<close> returns states of shape \<open>(n_trajectories, T, 4)\<close>
  and inputs of shape \<open>(n_trajectories, T, 2)\<close>, where \<open>T\<close> is the length of
  \<open>arange 0 duration time_step\<close>.
\<close>

theorem generate_expert_trajectories_shapes:
  assumes "0 \<le> n_trajectories cfg" and "0 \<le> state_noise cfg * time_step cfg"
    and "get_dynamics (time_step cfg) = Inr (Am, Bm)"
    and "arange 0 (duration cfg) (time_step cfg) = Inr t"
    and "perturbed_points cfg \<lparr>samples = entropy, pos = 0\<rparr> = (Inr points, g1)"
    and "\<forall>i < nat (n_trajectories cfg). \<exists>xv uv.
           optimize solve Am Bm t (points ! i) = Inr (Some xv, Some uv)
           \<and> dims xv (length t) 4 \<and> dims uv (length t) 2"
  shows "\<exists>states inputs.
           generate_expert_trajectories cfg solve entropy = Inr (states, inputs, points)
         \<and> dims3 states (nat (n_trajectories cfg)) (length t) 4
         \<and> dims3 inputs (nat (n_trajectories cfg)) (length t) 2"
proof -
  let ?n = "nat (n_trajectories cfg)"
  let ?x = "replicate ?n (replicate (length t) (replicate 4 (Num 0)))"
  let ?u = "replicate ?n (replicate (length t) (replicate 2 (Num 0)))"
  have "\<forall>i\<in>set [0..<?n]. \<exists>xv uv. optimize solve Am Bm t (points ! i) = Inr (Some xv, Some uv)
              \<and> dims xv (length t) 4 \<and> dims uv (length t) 2"
    using assms(6) by simp
  from fit_all_returns [OF this, of "(?x, ?u)"] obtain x' u' where
    fit: "fit_all solve Am Bm t points [0..<?n] (?x, ?u) = Inr (x', u')"
    by (metis prod.collapse)
  obtain noise g2 where
    nz: "normal3 g1 (state_noise cfg * time_step cfg) (?n, length t, 4) = (Inr noise, g2)"
    using assms(2) by (simp add: normal3_def)
  have gen: "generate_expert_trajectories cfg solve entropy = Inr (add_noise x' noise, u', points)"
    using assms(1,3,4,5) fit nz
    by (simp add: generate_expert_trajectories_def Let_def)
  show ?thesis
    using gen generate_returns_shapes [OF gen assms(4)] by blast
qed

lemma still_dynamics:
  "get_dynamics (time_step still_config) = Inr (example_A, example_B)"
  "get_dynamics (time_step negative_noise_config) = Inr (example_A, example_B)"
  by (simp_all add: still_config_def negative_noise_config_def example_dynamics)

lemma still_arange:
  "arange 0 (duration still_config) (time_step still_config) = Inr [0, 1]"
  "arange 0 (duration negative_noise_config) (time_step negative_noise_config) = Inr [0, 1]"
  by (simp_all add: arange_def still_config_def negative_noise_config_def upt_rec double_eval)

lemma still_points:
  "perturbed_points still_config \<lparr>samples = real, pos = 0\<rparr>
     = (Inr [replicate 9 [0, 0]], \<lparr>samples = real, pos = 18\<rparr>)"
  "perturbed_points negative_noise_config \<lparr>samples = real, pos = 0\<rparr>
     = (Inr [replicate 9 [0, 0]], \<lparr>samples = real, pos = 18\<rparr>)"
  by (simp_all add: perturbed_points_def normal3_def still_config_def negative_noise_config_def
      template_def mat_add_def vec_add_def upt_rec numeral_eq_Suc)

lemma still_fits:
  "optimize resting_solver example_A example_B [0, 1] (replicate 9 [0, 0])
   = Inr (Some (zeros 2 4), Some (zeros 2 2))"
proof -
  have p: "dims (replicate 9 [0, 0]) 9 2"
    by (simp add: dims_def list_all_iff)
  obtain idx where i: "point_idx (length [0 :: real, 1]) (length (replicate 9 [0 :: real, 0])) = Inr idx"
    using point_idx_Inr [of "length (replicate 9 [0 :: real, 0])" "length [0 :: real, 1]"] by simp
  show ?thesis
    unfolding optimize_def build_problem_def i
    using example_dims p by (simp add: resting_solver_def numeral_eq_Suc)
qed

theorem generate_expert_trajectories_shapes_witness:
  "0 \<le> n_trajectories still_config
   \<and> 0 \<le> state_noise still_config * time_step still_config
   \<and> get_dynamics (time_step still_config) = Inr (example_A, example_B)
   \<and> arange 0 (duration still_config) (time_step still_config) = Inr [0, 1]
   \<and> perturbed_points still_config \<lparr>samples = real, pos = 0\<rparr>
       = (Inr [replicate 9 [0, 0]], \<lparr>samples = real, pos = 18\<rparr>)
   \<and> (\<exists>states inputs.
         generate_expert_trajectories still_config resting_solver real
           = Inr (states, inputs, [replicate 9 [0, 0]])
       \<and> dims3 states (nat (n_trajectories still_config)) (length [0 :: real, 1]) 4
       \<and> dims3 inputs (nat (n_trajectories still_config)) (length [0 :: real, 1]) 2)"
proof -
  have h1: "0 \<le> n_trajectories still_config"
    and h2: "0 \<le> state_noise still_config * time_step still_config"
    by (simp_all add: still_config_def)
  have h6: "\<forall>i < nat (n_trajectories still_config). \<exists>xv uv.
      optimize resting_solver example_A example_B [0, 1] ([replicate 9 [0, 0]] ! i)
        = Inr (Some xv, Some uv)
      \<and> dims xv (length [0 :: real, 1]) 4 \<and> dims uv (length [0 :: real, 1]) 2"
  proof (intro allI impI)
    fix i assume "i < nat (n_trajectories still_config)"
    then have "i = 0" by (simp add: still_config_def)
    then show "\<exists>xv uv.
      optimize resting_solver example_A example_B [0, 1] ([replicate 9 [0, 0]] ! i)
        = Inr (Some xv, Some uv)
      \<and> dims xv (length [0 :: real, 1]) 4 \<and> dims uv (length [0 :: real, 1]) 2"
      by (simp add: still_fits dims_def zeros_def list_all_iff)
  qed
  show ?thesis
    by (intro conjI h1 h2 still_dynamics(1) still_arange(1) still_points(1)
        generate_expert_trajectories_shapes
          [OF h1 h2 still_dynamics(1) still_arange(1) still_points(1) h6])
qed

lemma generate_negative_noise:
  assumes "0 \<le> n_trajectories cfg" and "state_noise cfg * time_step cfg < 0"
    and "get_dynamics (time_step cfg) = Inr (Am, Bm)"
    and "arange 0 (duration cfg) (time_step cfg) = Inr t"
    and "perturbed_points cfg \<lparr>samples = entropy, pos = 0\<rparr> = (Inr points, g1)"
    and "fit_all solve Am Bm t points [0..<nat (n_trajectories cfg)]
           (replicate (nat (n_trajectories cfg)) (replicate (length t) (replicate 4 (Num 0))),
            replicate (nat (n_trajectories cfg)) (replicate (length t) (replicate 2 (Num 0))))
         = Inr xu"
  shows "generate_expert_trajectories cfg solve entropy = Inl ValueError"
  using assms
  by (cases xu) (simp add: generate_expert_trajectories_def Let_def normal3_def)

text \<open>
  With a negative scale of the measurement noise the one call of \<open>optimize\<close> succeeds
  and the function still returns nothing: the draw of the noise after the loop raises
  ValueError.
\<close>

theorem generate_negative_noise_counterexample:
  "optimize resting_solver example_A example_B [0, 1] (replicate 9 [0, 0])
     = Inr (Some (zeros 2 4), Some (zeros 2 2))
   \<and> generate_expert_trajectories negative_noise_config resting_solver real = Inl ValueError"
proof -
  let ?n = "nat (n_trajectories negative_noise_config)"
  let ?x = "replicate ?n (replicate (length [0 :: real, 1]) (replicate 4 (Num 0)))"
  let ?u = "replicate ?n (replicate (length [0 :: real, 1]) (replicate 2 (Num 0)))"
  have h: "0 \<le> n_trajectories negative_noise_config"
    "state_noise negative_noise_config * time_step negative_noise_config < 0"
    by (simp_all add: negative_noise_config_def)
  have "\<forall>i\<in>set [0..<?n]. \<exists>xv uv.
      optimize resting_solver example_A example_B [0, 1] ([replicate 9 [0, 0]] ! i)
        = Inr (Some xv, Some uv)
      \<and> dims xv (length [0 :: real, 1]) 4 \<and> dims uv (length [0 :: real, 1]) 2"
    by (simp add: negative_noise_config_def still_fits dims_def zeros_def list_all_iff)
  from fit_all_returns [OF this, of "(?x, ?u)"] obtain xu where
    fit: "fit_all resting_solver example_A example_B [0, 1] [replicate 9 [0, 0]] [0..<?n]
            (?x, ?u) = Inr xu"
    by blast
  have "generate_expert_trajectories negative_noise_config resting_solver real = Inl ValueError"
    using h still_dynamics(2) still_arange(2) still_points(2) fit
    by (rule generate_negative_noise)
  then show ?thesis using still_fits by simp
qed


end
